theory Spec2Isabelle
  imports Main "HOL-Library.Word" "HOL-Library.List_Lexorder" "HOL-Library.Char_ord"
begin

unbundle bit_operations_syntax

section \<open>The alert manager (alert\_manager.cpp, branch alert\_queue)\<close>

text \<open>
  The manager owns a queue of alerts and a counter of the resume-data alerts among
  them. The element type of the queue is left open: nothing below inspects an alert.
  The mutex only serialises the calls, so each member function is one atomic step on
  the record.
\<close>

record 'a alert_manager =
  m_alerts :: "'a list"
  m_num_queued_resume :: nat
  m_queue_size_limit :: nat
  m_alert_mask :: "32 word"

definition num_queued_resume :: "'a alert_manager \<Rightarrow> nat" where
  "num_queued_resume am = m_num_queued_resume am"

definition pending :: "'a alert_manager \<Rightarrow> bool" where
  "pending am = (m_alerts am \<noteq> [])"

text \<open>
  \<open>get_all am alerts\<close> returns the caller's queue, the out-parameter
  \<open>num_resume\<close> and the manager. The caller's queue is cleared first; when the
  manager's queue is empty the function returns there, before the counter is reset;
  otherwise the two queues are swapped and the counter is reset. The function's
  \<^verbatim>\<open>TORRENT_ASSERT(m_num_queued_resume <= m_alerts.size())\<close> is compiled out of a
  release build, which is the build modelled.
\<close>

definition get_all :: "'a alert_manager \<Rightarrow> 'a list \<Rightarrow> 'a list \<times> nat \<times> 'a alert_manager" where
  "get_all am alerts =
     (let num_resume = m_num_queued_resume am;
          alerts1 = []
      in if m_alerts am = [] then (alerts1, num_resume, am)
         else (m_alerts am, num_resume,
               am\<lparr>m_alerts := alerts1, m_num_queued_resume := 0\<rparr>))"

definition set_alert_queue_size_limit :: "'a alert_manager \<Rightarrow> nat \<Rightarrow> nat \<times> 'a alert_manager" where
  "set_alert_queue_size_limit am queue_size_limit =
     (m_queue_size_limit am, am\<lparr>m_queue_size_limit := queue_size_limit\<rparr>)"

section \<open>The DHT node (kademlia/node.cpp, trunk)\<close>

subsection \<open>Messages\<close>

text \<open>
  A decoded message is a tree of \<open>bdecode_node\<close>s; \<open>BNone\<close> is the empty node
  (type \<open>none_t\<close>), which converts to false. Integers are the 64-bit signed values
  that \<open>int_value\<close> returns, kept as mathematical integers; the casts of the source
  are written where they happen. Strings are byte strings.
\<close>

datatype bdecode_node =
    BNone
  | BInt int
  | BString string
  | BList "bdecode_node list"
  | BDict "(string \<times> bdecode_node) list"

datatype type_t = none_t | dict_t | list_t | string_t | int_t

fun node_type :: "bdecode_node \<Rightarrow> type_t" where
  "node_type BNone = none_t"
| "node_type (BInt _) = int_t"
| "node_type (BString _) = string_t"
| "node_type (BList _) = list_t"
| "node_type (BDict _) = dict_t"

fun dict_find :: "bdecode_node \<Rightarrow> string \<Rightarrow> bdecode_node" where
  "dict_find (BDict kvs) k = (case map_of kvs k of None \<Rightarrow> BNone | Some v \<Rightarrow> v)"
| "dict_find _ k = BNone"

definition dict_find_string :: "bdecode_node \<Rightarrow> string \<Rightarrow> bdecode_node" where
  "dict_find_string n k =
     (let r = dict_find n k in if node_type r = string_t then r else BNone)"

fun string_value :: "bdecode_node \<Rightarrow> string" where
  "string_value (BString s) = s"
| "string_value _ = []"

definition string_length :: "bdecode_node \<Rightarrow> nat" where
  "string_length n = length (string_value n)"

definition dict_find_string_value :: "bdecode_node \<Rightarrow> string \<Rightarrow> string" where
  "dict_find_string_value n k = string_value (dict_find_string n k)"

fun int_value :: "bdecode_node \<Rightarrow> int" where
  "int_value (BInt i) = i"
| "int_value _ = 0"

text \<open>The reply is an \<open>entry\<close>; a dictionary entry is kept as an association list,
  \<open>e[k] = v\<close> replaces the binding of \<open>k\<close> or adds one.\<close>

datatype entry =
    EInt int
  | EString string
  | EList "entry list"
  | EDict "(string \<times> entry) list"

fun entry_set :: "string \<Rightarrow> entry \<Rightarrow> (string \<times> entry) list \<Rightarrow> (string \<times> entry) list" where
  "entry_set k v [] = [(k, v)]"
| "entry_set k v ((k', v') # kvs) =
     (if k' = k then (k, v) # kvs else (k', v') # entry_set k v kvs)"

lemma map_of_entry_set: "map_of (entry_set k v kvs) = (map_of kvs)(k \<mapsto> v)"
  by (induction kvs) (auto simp: fun_eq_iff)

subsection \<open>verify\_message\<close>

datatype key_flag = optional | parse_children | last_child | size_divisible

record key_desc_t =
  kd_name :: string
  kd_type :: type_t
  kd_size :: nat
  kd_flags :: "key_flag list"

definition key_desc :: "string \<Rightarrow> type_t \<Rightarrow> nat \<Rightarrow> key_flag list \<Rightarrow> key_desc_t" where
  "key_desc n t s f = \<lparr>kd_name = n, kd_type = t, kd_size = s, kd_flags = f\<rparr>"

text \<open>
  The loop of \<open>verify_message\<close> over the descriptors. \<open>msg\<close> is the dictionary
  being read and \<open>stack\<close> the dictionaries to return to, innermost first (the
  source's \<open>stack[0..stack_ptr]\<close> reversed, \<open>msg\<close> on top). \<open>ret\<close> collects the
  nodes found, in descriptor order. When a dictionary with children is absent, its
  children up to and including the next \<open>last_child\<close> are skipped and stay empty.
  The result is \<open>Inl error\<close> for \<open>return false\<close>; \<open>err\<close> is the buffer as the
  caller passed it, returned untouched by the one path that fails without writing it.
\<close>

fun skip_children :: "key_desc_t list \<Rightarrow> nat \<times> key_desc_t list" where
  "skip_children [] = (0, [])"
| "skip_children (k # ks) =
     (if last_child \<in> set (kd_flags k) then (1, ks)
      else (let (n, r) = skip_children ks in (Suc n, r)))"

lemma skip_children_length:
  "skip_children ks = (n, r) \<Longrightarrow> length r \<le> length ks"
  by (induction ks arbitrary: n r) (auto split: prod.splits if_splits)

function (sequential) verify_loop ::
  "key_desc_t list \<Rightarrow> bdecode_node \<Rightarrow> bdecode_node list \<Rightarrow> bdecode_node list \<Rightarrow> string
    \<Rightarrow> string + bdecode_node list" where
  "verify_loop [] msg stack ret err = Inr ret"
| "verify_loop (k # ks) msg stack ret err =
     (let r0 = dict_find msg (kd_name k);
          r1 = (if r0 \<noteq> BNone \<and> node_type r0 \<noteq> kd_type k \<and> kd_type k \<noteq> none_t
                then BNone else r0)
      in if r1 = BNone \<and> optional \<notin> set (kd_flags k)
         then Inl (take 199 (''missing '' @ [CHR 0x27] @ kd_name k @ [CHR 0x27] @ '' key''))
         else
           let invalid =
                 (kd_size k > 0 \<and> r1 \<noteq> BNone \<and> kd_type k = string_t \<and>
                  (if size_divisible \<in> set (kd_flags k)
                   then string_length r1 mod kd_size k \<noteq> 0
                   else string_length r1 \<noteq> kd_size k));
               r2 = (if invalid then BNone else r1)
           in if invalid \<and> optional \<notin> set (kd_flags k)
              then Inl (take 199 (''invalid value for '' @ [CHR 0x27] @ kd_name k @ [CHR 0x27]))
              else if parse_children \<in> set (kd_flags k)
              then (if r2 \<noteq> BNone
                    then verify_loop ks r2 (msg # stack) (ret @ [r2]) err
                    else (let (n, rest) = skip_children (k # ks)
                          in verify_loop rest msg stack (ret @ replicate n BNone) err))
              else if last_child \<in> set (kd_flags k)
              then (case stack of
                      [] \<Rightarrow> Inl err
                    | up # stack' \<Rightarrow> verify_loop ks up stack' (ret @ [r2]) err)
              else verify_loop ks msg stack (ret @ [r2]) err)"
  by pat_completeness auto
termination
  by (relation "measure (\<lambda>(ks, msg, stack, ret, err). length ks)")
    (auto split: if_splits prod.splits dest: skip_children_length)

definition verify_message ::
  "bdecode_node \<Rightarrow> key_desc_t list \<Rightarrow> string \<Rightarrow> string + bdecode_node list" where
  "verify_message message desc err =
     (if node_type message \<noteq> dict_t then Inl ''not a dictionary''
      else verify_loop desc message [] [] err)"


subsection \<open>The node's state and its collaborators\<close>

datatype address = V4 "32 word" | V6 "128 word"

record udp_endpoint =
  ep_address :: address
  ep_port :: "16 word"

record msg =
  message :: bdecode_node
  addr :: udp_endpoint

record node_entry =
  ne_id :: string
  ne_ep :: udp_endpoint

record peer_entry =
  peer_addr :: "address \<times> int"
  added :: nat
  seed :: bool

text \<open>
  \<open>peers\<close> is a \<open>std::set<peer_entry>\<close> whose order (declared in node.hpp) compares
  the endpoints; it is kept as a list with one entry per endpoint, and only its size
  and its membership are used below.
\<close>

record torrent_entry =
  name :: string
  peers :: "peer_entry list"

text \<open>
  Modelled from the spec: \<open>bloom_filter\<close> (the type of \<open>ips\<close>) is declared in
  bloom\_filter.hpp, which is not among the sources; the spec says it counts distinct
  announcer addresses, so it is the list of the address hashes set so far.
\<close>

record dht_immutable_item =
  item_value :: string
  ips :: "string list"
  last_seen :: nat
  num_announcers :: nat

record dht_mutable_item = dht_immutable_item +
  sig :: string
  seq :: "64 word"
  key :: string
  salt :: string

record dht_settings =
  max_torrents :: int
  max_dht_items :: int
  max_peers_reply :: int
  enforce_node_id :: bool

datatype counter =
    dht_ping_in | dht_invalid_get_peers | dht_get_peers_in | dht_find_node_in
  | dht_invalid_announce | dht_announce_peer_in | dht_torrents
  | dht_invalid_put | dht_put_in | dht_immutable_data | dht_mutable_data
  | dht_invalid_get | dht_get_in

text \<open>
  The state of a node. \<open>'rt\<close> is the routing table, whose code (routing\_table.cpp) is
  not among the sources. The three \<open>std::map\<close>s are association lists in key order
  (the order of \<open>sha1_hash\<close> is the order of its bytes). \<open>m_observer\<close> is \<open>None\<close>
  for a null observer and otherwise the announces it has been told of.
\<close>

record 'rt node =
  m_settings :: dht_settings
  m_id :: string
  m_table :: 'rt
  m_secret :: "32 word \<times> 32 word"
  m_map :: "(string \<times> torrent_entry) list"
  m_immutable_table :: "(string \<times> dht_immutable_item) list"
  m_mutable_table :: "(string \<times> dht_mutable_item) list"
  m_counters :: "counter \<Rightarrow> int"
  m_observer :: "(string \<times> address \<times> int) list option"

text \<open>
  What the node calls and this file does not define: the hash function, the socket,
  the routing table, the signature check, the encoders and the clock. A theorem that
  leaves the environment free holds for every implementation of them.
\<close>

record 'rt dht_env =
  hasher :: "string \<Rightarrow> string"
  address_to_string :: "address \<Rightarrow> string option"
  has_quota :: bool
  verify_id :: "string \<Rightarrow> address \<Rightarrow> bool"
  heard_about :: "'rt \<Rightarrow> string \<Rightarrow> udp_endpoint \<Rightarrow> 'rt"
  node_seen :: "'rt \<Rightarrow> string \<Rightarrow> udp_endpoint \<Rightarrow> int \<Rightarrow> 'rt"
  find_node :: "'rt \<Rightarrow> string \<Rightarrow> node_entry list"
  endpoint_to_bytes :: "udp_endpoint \<Rightarrow> string"
  write_endpoint :: "udp_endpoint \<Rightarrow> string"
  lookup_peers :: "(string \<times> torrent_entry) list \<Rightarrow> string \<Rightarrow> (string \<times> entry) list
      \<Rightarrow> bool \<Rightarrow> bool \<Rightarrow> (string \<times> entry) list"
  verify_mutable_item :: "string \<Rightarrow> string \<Rightarrow> int \<Rightarrow> string \<Rightarrow> string \<Rightarrow> bool"
  hash_address :: "address \<Rightarrow> string"
  distance_exp :: "string \<Rightarrow> string \<Rightarrow> int"
  bdecode :: "string \<Rightarrow> entry"
  data_section :: "bdecode_node \<Rightarrow> string"
  time_now :: nat

definition inc_stats_counter :: "counter \<Rightarrow> int \<Rightarrow> 'rt node \<Rightarrow> 'rt node" where
  "inc_stats_counter c v nd = nd\<lparr>m_counters := (m_counters nd)(c := m_counters nd c + v)\<rparr>"

subsection \<open>Tables\<close>

definition tbl_find :: "('k \<times> 'v) list \<Rightarrow> 'k \<Rightarrow> 'v option" where
  "tbl_find t k = map_of t k"

fun tbl_erase :: "'k \<Rightarrow> ('k \<times> 'v) list \<Rightarrow> ('k \<times> 'v) list" where
  "tbl_erase k [] = []"
| "tbl_erase k ((k', v) # t) = (if k' = k then t else (k', v) # tbl_erase k t)"

definition tbl_insert :: "'k::linorder \<Rightarrow> 'v \<Rightarrow> ('k \<times> 'v) list \<Rightarrow> ('k \<times> 'v) list" where
  "tbl_insert k v t = (if k \<in> fst ` set t then t else insort_key fst (k, v) t)"

fun tbl_assign :: "'k \<Rightarrow> 'v \<Rightarrow> ('k \<times> 'v) list \<Rightarrow> ('k \<times> 'v) list" where
  "tbl_assign k v [] = []"
| "tbl_assign k v ((k', v') # t) = (if k' = k then (k', v) # t else (k', v') # tbl_assign k v t)"

text \<open>\<open>std::min_element\<close>: the first element that no later one is less than.\<close>

fun min_element :: "('a \<Rightarrow> 'a \<Rightarrow> bool) \<Rightarrow> 'a list \<Rightarrow> 'a option" where
  "min_element cmp [] = None"
| "min_element cmp (x # xs) =
     Some (foldl (\<lambda>smallest y. if cmp y smallest then y else smallest) x xs)"

subsection \<open>Write tokens\<close>

text \<open>The four bytes of a secret as they lie in memory (least significant first).\<close>

definition secret_bytes :: "32 word \<Rightarrow> string" where
  "secret_bytes s = map (\<lambda>i. char_of (unat (drop_bit (8 * i) s))) [0, 1, 2, 3]"

definition token_hash :: "'rt dht_env \<Rightarrow> string \<Rightarrow> 32 word \<Rightarrow> string \<Rightarrow> string" where
  "token_hash env address secret info_hash =
     hasher env (address @ secret_bytes secret @ info_hash)"

definition verify_token :: "'rt dht_env \<Rightarrow> 'rt node \<Rightarrow> string \<Rightarrow> string \<Rightarrow> udp_endpoint \<Rightarrow> bool" where
  "verify_token env nd token info_hash a =
     (if length token \<noteq> 4 then False
      else case address_to_string env (ep_address a) of
        None \<Rightarrow> False
      | Some address \<Rightarrow>
          if token = take 4 (token_hash env address (fst (m_secret nd)) info_hash) then True
          else if token = take 4 (token_hash env address (snd (m_secret nd)) info_hash) then True
          else False)"

definition generate_token :: "'rt dht_env \<Rightarrow> 'rt node \<Rightarrow> udp_endpoint \<Rightarrow> string \<Rightarrow> string" where
  "generate_token env nd a info_hash =
     (let address = (case address_to_string env (ep_address a) of None \<Rightarrow> [] | Some s \<Rightarrow> s)
      in take 4 (token_hash env address (fst (m_secret nd)) info_hash))"

text \<open>\<open>new_write_key nd r\<close>: \<open>r\<close> is the value \<open>random()\<close> returns.\<close>

definition new_write_key :: "'rt node \<Rightarrow> 32 word \<Rightarrow> 'rt node" where
  "new_write_key nd r = nd\<lparr>m_secret := (r, fst (m_secret nd))\<rparr>"

subsection \<open>incoming\_request\<close>

text \<open>
  Modelled from the spec: the default of \<open>incoming_error\<close>'s last parameter is declared
  in node.hpp, which is not among the sources; the spec lists 203 as the protocol error.
\<close>

definition default_error_code :: int where
  "default_error_code = 203"

definition incoming_error :: "(string \<times> entry) list \<Rightarrow> string \<Rightarrow> int \<Rightarrow> (string \<times> entry) list" where
  "incoming_error e emsg error_code =
     (let e1 = entry_set ''y'' (EString ''e'') e;
          l = (case map_of e1 ''e'' of Some (EList l) \<Rightarrow> l | _ \<Rightarrow> [])
      in entry_set ''e'' (EList (l @ [EInt error_code, EString emsg])) e1)"

text \<open>
  Modelled from the spec: \<open>rpc_manager::add_our_id\<close> is defined in rpc\_manager.cpp,
  which is not among the sources; the spec says a reply carries \<open>r.id = our_id\<close>.
\<close>

definition add_our_id :: "'rt node \<Rightarrow> (string \<times> entry) list \<Rightarrow> (string \<times> entry) list" where
  "add_our_id nd reply = entry_set ''id'' (EString (m_id nd)) reply"

text \<open>
  Modelled from the spec: \<open>item_target_id\<close> is defined in item.cpp, which is not among
  the sources; the spec gives the target of an immutable item as SHA-1 of the value
  and of a mutable item as SHA-1 of the public key followed by the salt.
\<close>

definition item_target_id_immutable :: "'rt dht_env \<Rightarrow> string \<Rightarrow> string" where
  "item_target_id_immutable env buf = hasher env buf"

definition item_target_id_mutable :: "'rt dht_env \<Rightarrow> string \<Rightarrow> string \<Rightarrow> string" where
  "item_target_id_mutable env salt_bytes pk = hasher env (pk @ salt_bytes)"

definition is_v4 :: "address \<Rightarrow> bool" where
  "is_v4 a = (case a of V4 _ \<Rightarrow> True | V6 _ \<Rightarrow> False)"

definition write_nodes_entry ::
  "'rt dht_env \<Rightarrow> (string \<times> entry) list \<Rightarrow> node_entry list \<Rightarrow> (string \<times> entry) list" where
  "write_nodes_entry env r nodes =
     (let n = (case map_of r ''nodes'' of Some (EString old) \<Rightarrow> old | _ \<Rightarrow> [])
      in entry_set ''nodes''
           (EString (n @ concat (map (\<lambda>i. if \<not> is_v4 (ep_address (ne_ep i)) then []
                                            else ne_id i @ write_endpoint env (ne_ep i)) nodes))) r)"

text \<open>The response under construction: the top-level dictionary \<open>e\<close> and the
  dictionary \<open>reply\<close> that \<open>e["r"]\<close> refers to, written back into \<open>e\<close> on return.\<close>

definition finish :: "(string \<times> entry) list \<Rightarrow> (string \<times> entry) list \<Rightarrow> 'rt node \<Rightarrow> entry \<times> 'rt node" where
  "finish e reply nd = (EDict (entry_set ''r'' (EDict reply) e), nd)"

definition fail :: "(string \<times> entry) list \<Rightarrow> (string \<times> entry) list \<Rightarrow> string \<Rightarrow> int \<Rightarrow> 'rt node
    \<Rightarrow> entry \<times> 'rt node" where
  "fail e reply emsg error_code nd = finish (incoming_error e emsg error_code) reply nd"

text \<open>The 32-bit \<open>int\<close> that \<open>int(msg_keys[1].int_value())\<close> yields.\<close>

definition to_int32 :: "int \<Rightarrow> int" where
  "to_int32 v = sint (word_of_int v :: 32 word)"

text \<open>
  The search for the torrent to drop: \<open>num_peers\<close> and \<open>candidate\<close> start at the
  first entry of the map, and every entry with no more peers than \<open>num_peers\<close> and a
  key other than \<open>info_hash\<close> takes their place. The candidate is the key the iterator
  points at.
\<close>

fun eviction_loop :: "string \<Rightarrow> (string \<times> torrent_entry) list \<Rightarrow> int \<times> string \<Rightarrow> int \<times> string" where
  "eviction_loop info_hash [] (num_peers, candidate) = (num_peers, candidate)"
| "eviction_loop info_hash ((k, t) # rest) (num_peers, candidate) =
     (if int (length (peers t)) > num_peers then eviction_loop info_hash rest (num_peers, candidate)
      else if k = info_hash then eviction_loop info_hash rest (num_peers, candidate)
      else eviction_loop info_hash rest (int (length (peers t)), k))"

definition announce_desc :: "key_desc_t list" where
  "announce_desc =
     [key_desc ''info_hash'' string_t 20 [],
      key_desc ''port'' int_t 0 [],
      key_desc ''token'' string_t 0 [],
      key_desc ''n'' string_t 0 [optional],
      key_desc ''seed'' int_t 0 [optional],
      key_desc ''implied_port'' int_t 0 [optional]]"

definition observer_announce :: "string \<Rightarrow> address \<Rightarrow> int \<Rightarrow> 'rt node \<Rightarrow> 'rt node" where
  "observer_announce info_hash a port nd =
     (case m_observer nd of None \<Rightarrow> nd
      | Some l \<Rightarrow> nd\<lparr>m_observer := Some (l @ [(info_hash, a, port)])\<rparr>)"

definition announce_peer ::
  "'rt dht_env \<Rightarrow> msg \<Rightarrow> bdecode_node \<Rightarrow> string \<Rightarrow> string \<Rightarrow> (string \<times> entry) list
    \<Rightarrow> (string \<times> entry) list \<Rightarrow> 'rt node \<Rightarrow> entry \<times> 'rt node" where
  "announce_peer env m arg_ent nid error_string e reply nd =
     (case verify_message arg_ent announce_desc error_string of
        Inl err \<Rightarrow> fail e reply err default_error_code (inc_stats_counter dht_invalid_announce 1 nd)
      | Inr msg_keys \<Rightarrow>
          let port0 = to_int32 (int_value (msg_keys ! 1));
              port = (if msg_keys ! 5 \<noteq> BNone \<and> int_value (msg_keys ! 5) \<noteq> 0
                      then uint (ep_port (addr m)) else port0)
          in if port < 0 \<or> port \<ge> 65536
             then fail e reply ''invalid port'' default_error_code
                    (inc_stats_counter dht_invalid_announce 1 nd)
             else
               let info_hash = string_value (msg_keys ! 0);
                   nd1 = observer_announce info_hash (ep_address (addr m)) port nd
               in if \<not> verify_token env nd1 (string_value (msg_keys ! 2)) info_hash (addr m)
                  then fail e reply ''invalid token'' default_error_code
                         (inc_stats_counter dht_invalid_announce 1 nd1)
                  else
                    let nd2 = inc_stats_counter dht_announce_peer_in 1 nd1;
                        nd3 = nd2\<lparr>m_table := node_seen env (m_table nd2) nid (addr m) 0xffff\<rparr>;
                        nd4 =
                          (case tbl_find (m_map nd3) info_hash of
                             None \<Rightarrow>
                               let nd3a =
                                     (if m_map nd3 \<noteq> []
                                         \<and> int (length (m_map nd3)) \<ge> max_torrents (m_settings nd3)
                                      then
                                        let first = hd (m_map nd3);
                                            (num_peers, candidate) =
                                              eviction_loop info_hash (m_map nd3)
                                                (int (length (peers (snd first))), fst first)
                                        in inc_stats_counter dht_torrents (- 1)
                                             (nd3\<lparr>m_map := tbl_erase candidate (m_map nd3)\<rparr>)
                                      else nd3);
                                   nd3b = inc_stats_counter dht_torrents 1 nd3a
                               in nd3b\<lparr>m_map := tbl_insert info_hash \<lparr>name = [], peers = []\<rparr> (m_map nd3b)\<rparr>
                           | Some _ \<Rightarrow> nd3);
                        v = (case tbl_find (m_map nd4) info_hash of
                               Some t \<Rightarrow> t | None \<Rightarrow> \<lparr>name = [], peers = []\<rparr>);
                        v1 = (if msg_keys ! 3 \<noteq> BNone \<and> name v = []
                              then v\<lparr>name := take 50 (string_value (msg_keys ! 3))\<rparr> else v);
                        peer = \<lparr>peer_addr = (ep_address (addr m), port), added = time_now env,
                                seed = (msg_keys ! 4 \<noteq> BNone \<and> int_value (msg_keys ! 4) \<noteq> 0)\<rparr>;
                        v2 = v1\<lparr>peers := filter (\<lambda>p. peer_addr p \<noteq> peer_addr peer) (peers v1) @ [peer]\<rparr>
                    in finish e reply (nd4\<lparr>m_map := tbl_assign info_hash v2 (m_map nd4)\<rparr>))"

definition put_desc :: "key_desc_t list" where
  "put_desc =
     [key_desc ''token'' string_t 0 [],
      key_desc ''v'' none_t 0 [],
      key_desc ''seq'' int_t 0 [optional],
      key_desc ''k'' string_t 32 [optional],
      key_desc ''sig'' string_t 64 [optional],
      key_desc ''cas'' int_t 0 [optional],
      key_desc ''salt'' string_t 0 [optional]]"

text \<open>
  The order \<open>immutable_item_comparator\<close> defines. \<open>num_announcers\<close> is never negative,
  so the division by 5 truncates as in the source.
\<close>

definition immutable_item_comparator ::
  "'rt dht_env \<Rightarrow> string \<Rightarrow> string \<times> dht_immutable_item \<Rightarrow> string \<times> dht_immutable_item \<Rightarrow> bool" where
  "immutable_item_comparator env our_id lhs rhs =
     (let l_distance = distance_exp env (fst lhs) our_id;
          r_distance = distance_exp env (fst rhs) our_id
      in int (num_announcers (snd lhs) div 5) - l_distance
           < int (num_announcers (snd rhs) div 5) - r_distance)"

text \<open>
  The predicate handed to \<open>std::min_element\<close> for the mutable table is
  \<open>bind(&dht_immutable_item::num_announcers, bind(&value_type::second, _1))\<close>: it reads
  its first argument only, and its result is used as a truth value.
\<close>

definition mutable_item_comparator ::
  "string \<times> dht_mutable_item \<Rightarrow> string \<times> dht_mutable_item \<Rightarrow> bool" where
  "mutable_item_comparator lhs rhs = (num_announcers (snd lhs) \<noteq> 0)"

text \<open>The end of the put branch: \<open>last_seen\<close>, and one more announcer when the
  address has not been seen for this item.\<close>

definition touch_item ::
  "'rt dht_env \<Rightarrow> address \<Rightarrow> 'z dht_immutable_item_scheme \<Rightarrow> 'z dht_immutable_item_scheme" where
  "touch_item env a f =
     (let f1 = f\<lparr>last_seen := time_now env\<rparr>;
          iphash = hash_address env a
      in if iphash \<notin> set (ips f1)
         then f1\<lparr>ips := ips f1 @ [iphash], num_announcers := num_announcers f1 + 1\<rparr>
         else f1)"

definition put_immutable ::
  "'rt dht_env \<Rightarrow> msg \<Rightarrow> string \<Rightarrow> string \<Rightarrow> string \<Rightarrow> (string \<times> entry) list
    \<Rightarrow> (string \<times> entry) list \<Rightarrow> 'rt node \<Rightarrow> entry \<times> 'rt node" where
  "put_immutable env m nid target buf e reply nd =
     (let nd1 =
            (case tbl_find (m_immutable_table nd) target of
               Some _ \<Rightarrow> nd
             | None \<Rightarrow>
                 let nd0 =
                       (if int (length (m_immutable_table nd)) \<ge> max_dht_items (m_settings nd)
                        then (case min_element (immutable_item_comparator env (m_id nd))
                                     (m_immutable_table nd) of
                                None \<Rightarrow> nd
                              | Some j \<Rightarrow>
                                  inc_stats_counter dht_immutable_data (- 1)
                                    (nd\<lparr>m_immutable_table := tbl_erase (fst j) (m_immutable_table nd)\<rparr>))
                        else nd);
                     to_add = \<lparr>item_value = buf, ips = [], last_seen = 0, num_announcers = 0\<rparr>
                 in inc_stats_counter dht_immutable_data 1
                      (nd0\<lparr>m_immutable_table := tbl_insert target to_add (m_immutable_table nd0)\<rparr>));
          nd2 = nd1\<lparr>m_table := node_seen env (m_table nd1) nid (addr m) 0xffff\<rparr>
      in finish e reply
           (case tbl_find (m_immutable_table nd2) target of
              None \<Rightarrow> nd2
            | Some f \<Rightarrow>
                nd2\<lparr>m_immutable_table :=
                      tbl_assign target (touch_item env (ep_address (addr m)) f)
                        (m_immutable_table nd2)\<rparr>))"

text \<open>
  A mutable put that has passed the signature check. \<open>seq_v\<close> and \<open>cas\<close> are the
  integers of the message (\<open>cas\<close> is \<open>None\<close> when the key is absent); the item's
  \<open>seq\<close> is a \<open>boost::uint64_t\<close>, and the comparisons are made after the cast to it.
\<close>

definition put_mutable ::
  "'rt dht_env \<Rightarrow> msg \<Rightarrow> string \<Rightarrow> string \<Rightarrow> string \<Rightarrow> string \<Rightarrow> int \<Rightarrow> string \<Rightarrow> string
    \<Rightarrow> int option \<Rightarrow> (string \<times> entry) list \<Rightarrow> (string \<times> entry) list \<Rightarrow> 'rt node
    \<Rightarrow> entry \<times> 'rt node" where
  "put_mutable env m nid target buf salt_bytes seq_v pk sig_bytes cas e reply nd =
     (let touch = (\<lambda>nd1.
            let nd2 = nd1\<lparr>m_table := node_seen env (m_table nd1) nid (addr m) 0xffff\<rparr>
            in finish e reply
                 (case tbl_find (m_mutable_table nd2) target of
                    None \<Rightarrow> nd2
                  | Some f \<Rightarrow>
                      nd2\<lparr>m_mutable_table :=
                            tbl_assign target (touch_item env (ep_address (addr m)) f)
                              (m_mutable_table nd2)\<rparr>))
      in case tbl_find (m_mutable_table nd) target of
           None \<Rightarrow>
             let nd0 =
                   (if int (length (m_mutable_table nd)) \<ge> max_dht_items (m_settings nd)
                    then (case min_element mutable_item_comparator (m_mutable_table nd) of
                            None \<Rightarrow> nd
                          | Some j \<Rightarrow>
                              inc_stats_counter dht_mutable_data (- 1)
                                (nd\<lparr>m_mutable_table := tbl_erase (fst j) (m_mutable_table nd)\<rparr>))
                    else nd);
                 to_add = \<lparr>item_value = buf, ips = [], last_seen = 0, num_announcers = 0,
                            sig = sig_bytes, seq = word_of_int seq_v, key = pk,
                            salt = salt_bytes\<rparr>
             in touch (inc_stats_counter dht_mutable_data 1
                  (nd0\<lparr>m_mutable_table := tbl_insert target to_add (m_mutable_table nd0)\<rparr>))
         | Some item \<Rightarrow>
             if cas \<noteq> None \<and> seq item \<noteq> word_of_int (the cas)
             then fail e reply ''CAS mismatch'' 301 (inc_stats_counter dht_invalid_put 1 nd)
             else if seq item > word_of_int seq_v
             then fail e reply ''old sequence number'' 302 (inc_stats_counter dht_invalid_put 1 nd)
             else if seq item < word_of_int seq_v
             then touch (nd\<lparr>m_mutable_table :=
                    tbl_assign target (item\<lparr>item_value := buf, seq := word_of_int seq_v,
                                            sig := sig_bytes\<rparr>) (m_mutable_table nd)\<rparr>)
             else touch nd)"

definition put ::
  "'rt dht_env \<Rightarrow> msg \<Rightarrow> bdecode_node \<Rightarrow> string \<Rightarrow> string \<Rightarrow> (string \<times> entry) list
    \<Rightarrow> (string \<times> entry) list \<Rightarrow> 'rt node \<Rightarrow> entry \<times> 'rt node" where
  "put env m arg_ent nid error_string e reply nd =
     (case verify_message arg_ent put_desc error_string of
        Inl err \<Rightarrow> fail e reply err default_error_code (inc_stats_counter dht_invalid_put 1 nd)
      | Inr msg_keys \<Rightarrow>
          let nd1 = inc_stats_counter dht_put_in 1 nd;
              mutable_put = (msg_keys ! 2 \<noteq> BNone \<and> msg_keys ! 3 \<noteq> BNone \<and> msg_keys ! 4 \<noteq> BNone);
              pk = (if msg_keys ! 3 \<noteq> BNone then Some (string_value (msg_keys ! 3)) else None);
              sig_bytes = (if msg_keys ! 4 \<noteq> BNone then Some (string_value (msg_keys ! 4)) else None);
              buf = data_section env (msg_keys ! 1)
          in if length buf > 1000 \<or> length buf \<le> 0
             then fail e reply ''message too big'' 205 (inc_stats_counter dht_invalid_put 1 nd1)
             else
               let salt_bytes = (if msg_keys ! 6 \<noteq> BNone then string_value (msg_keys ! 6) else [])
               in if length salt_bytes > 64
                  then fail e reply ''salt too big'' 207 (inc_stats_counter dht_invalid_put 1 nd1)
                  else
                    let target = (case pk of
                                    Some k \<Rightarrow> item_target_id_mutable env salt_bytes k
                                  | None \<Rightarrow> item_target_id_immutable env buf)
                    in if \<not> verify_token env nd1 (string_value (msg_keys ! 0)) target (addr m)
                       then fail e reply ''invalid token'' default_error_code
                              (inc_stats_counter dht_invalid_put 1 nd1)
                       else if \<not> mutable_put
                       then put_immutable env m nid target buf e reply nd1
                       else if \<not> verify_mutable_item env buf salt_bytes (int_value (msg_keys ! 2))
                                   (the pk) (the sig_bytes)
                       then fail e reply ''invalid signature'' 206
                              (inc_stats_counter dht_invalid_put 1 nd1)
                       else put_mutable env m nid target buf salt_bytes (int_value (msg_keys ! 2))
                              (the pk) (the sig_bytes)
                              (if msg_keys ! 5 \<noteq> BNone then Some (int_value (msg_keys ! 5)) else None)
                              e reply nd1)"

definition get_desc :: "key_desc_t list" where
  "get_desc =
     [key_desc ''seq'' int_t 0 [optional],
      key_desc ''target'' string_t 20 []]"

text \<open>\<open>reply["seq"] = f.seq\<close> stores the unsigned value in the entry's signed 64-bit
  integer.\<close>

definition get_item ::
  "'rt dht_env \<Rightarrow> msg \<Rightarrow> bdecode_node \<Rightarrow> string \<Rightarrow> (string \<times> entry) list
    \<Rightarrow> (string \<times> entry) list \<Rightarrow> 'rt node \<Rightarrow> entry \<times> 'rt node" where
  "get_item env m arg_ent error_string e reply nd =
     (case verify_message arg_ent get_desc error_string of
        Inl err \<Rightarrow> fail e reply err default_error_code (inc_stats_counter dht_invalid_get 1 nd)
      | Inr msg_keys \<Rightarrow>
          let nd1 = inc_stats_counter dht_get_in 1 nd;
              target = string_value (msg_keys ! 1);
              reply1 = entry_set ''token'' (EString (generate_token env nd1 (addr m) target)) reply;
              n = find_node env (m_table nd1) target;
              reply2 = write_nodes_entry env reply1 n;
              i = (if msg_keys ! 0 = BNone then tbl_find (m_immutable_table nd1) target else None)
          in (case i of
               Some f \<Rightarrow>
                 finish e (entry_set ''v'' (bdecode env (item_value f)) reply2) nd1
             | None \<Rightarrow>
                 (case tbl_find (m_mutable_table nd1) target of
                    None \<Rightarrow> finish e reply2 nd1
                  | Some f \<Rightarrow>
                      let reply3 = entry_set ''seq'' (EInt (sint (seq f))) reply2
                      in if msg_keys ! 0 = BNone
                            \<or> ((word_of_int (int_value (msg_keys ! 0)) :: 64 word) < seq f)
                         then finish e
                                (entry_set ''k'' (EString (key f))
                                  (entry_set ''sig'' (EString (sig f))
                                    (entry_set ''v'' (bdecode env (item_value f)) reply3))) nd1
                         else finish e reply3 nd1)))"

definition get_peers_desc :: "key_desc_t list" where
  "get_peers_desc =
     [key_desc ''info_hash'' string_t 20 [],
      key_desc ''noseed'' int_t 0 [optional],
      key_desc ''scrape'' int_t 0 [optional]]"

definition get_peers ::
  "'rt dht_env \<Rightarrow> msg \<Rightarrow> bdecode_node \<Rightarrow> string \<Rightarrow> (string \<times> entry) list
    \<Rightarrow> (string \<times> entry) list \<Rightarrow> 'rt node \<Rightarrow> entry \<times> 'rt node" where
  "get_peers env m arg_ent error_string e reply nd =
     (case verify_message arg_ent get_peers_desc error_string of
        Inl err \<Rightarrow> fail e reply err default_error_code (inc_stats_counter dht_invalid_get_peers 1 nd)
      | Inr msg_keys \<Rightarrow>
          let info_hash = string_value (msg_keys ! 0);
              reply1 = entry_set ''token'' (EString (generate_token env nd (addr m) info_hash)) reply;
              nd1 = inc_stats_counter dht_get_peers_in 1 nd;
              reply2 = write_nodes_entry env reply1 (find_node env (m_table nd1) info_hash);
              noseed = (msg_keys ! 1 \<noteq> BNone \<and> int_value (msg_keys ! 1) \<noteq> 0);
              scrape = (msg_keys ! 2 \<noteq> BNone \<and> int_value (msg_keys ! 2) \<noteq> 0)
          in finish e (lookup_peers env (m_map nd1) info_hash reply2 noseed scrape) nd1)"

definition find_node_desc :: "key_desc_t list" where
  "find_node_desc = [key_desc ''target'' string_t 20 []]"

definition find_node_request ::
  "'rt dht_env \<Rightarrow> bdecode_node \<Rightarrow> string \<Rightarrow> (string \<times> entry) list
    \<Rightarrow> (string \<times> entry) list \<Rightarrow> 'rt node \<Rightarrow> entry \<times> 'rt node" where
  "find_node_request env arg_ent error_string e reply nd =
     (case verify_message arg_ent find_node_desc error_string of
        Inl err \<Rightarrow> fail e reply err default_error_code nd
      | Inr msg_keys \<Rightarrow>
          let nd1 = inc_stats_counter dht_find_node_in 1 nd;
              target = string_value (msg_keys ! 0)
          in finish e (write_nodes_entry env reply (find_node env (m_table nd1) target)) nd1)"

text \<open>The last branch: a query whose name is not known.\<close>

definition unknown_query ::
  "'rt dht_env \<Rightarrow> bdecode_node \<Rightarrow> (string \<times> entry) list
    \<Rightarrow> (string \<times> entry) list \<Rightarrow> 'rt node \<Rightarrow> entry \<times> 'rt node" where
  "unknown_query env arg_ent e reply nd =
     (let target_ent0 = dict_find_string arg_ent ''target'';
          target_ent = (if target_ent0 = BNone \<or> string_length target_ent0 \<noteq> 20
                        then dict_find_string arg_ent ''info_hash'' else target_ent0)
      in if (target_ent0 = BNone \<or> string_length target_ent0 \<noteq> 20)
            \<and> (target_ent = BNone \<or> string_length target_ent \<noteq> 20)
         then fail e reply ''unknown message'' default_error_code nd
         else finish e (write_nodes_entry env reply
                (find_node env (m_table nd) (string_value target_ent))) nd)"

definition top_desc :: "key_desc_t list" where
  "top_desc =
     [key_desc ''q'' string_t 0 [],
      key_desc ''ro'' int_t 0 [optional],
      key_desc ''a'' dict_t 0 [parse_children],
      key_desc ''id'' string_t 20 [last_child]]"

text \<open>
  The start of every response: \<open>y\<close>, \<open>t\<close> and, once the top level of the message
  has been verified, \<open>ip\<close>; and the reply dictionary with our id and the sender's port.
\<close>

definition response_start :: "msg \<Rightarrow> (string \<times> entry) list" where
  "response_start m =
     entry_set ''t'' (EString (dict_find_string_value (message m) ''t''))
       (entry_set ''y'' (EString ''r'') [])"

definition response_ip :: "'rt dht_env \<Rightarrow> msg \<Rightarrow> (string \<times> entry) list" where
  "response_ip env m = entry_set ''ip'' (EString (endpoint_to_bytes env (addr m))) (response_start m)"

definition reply_start :: "msg \<Rightarrow> 'rt node \<Rightarrow> (string \<times> entry) list" where
  "reply_start m nd = entry_set ''p'' (EInt (uint (ep_port (addr m)))) (add_our_id nd [])"

text \<open>The node after the sender has been told to the routing table, unless the query
  is read-only.\<close>

definition heard_node :: "'rt dht_env \<Rightarrow> msg \<Rightarrow> bool \<Rightarrow> string \<Rightarrow> 'rt node \<Rightarrow> 'rt node" where
  "heard_node env m read_only nid nd =
     (if \<not> read_only then nd\<lparr>m_table := heard_about env (m_table nd) nid (addr m)\<rparr> else nd)"

text \<open>The chain of comparisons on the name of the query.\<close>

definition dispatch ::
  "'rt dht_env \<Rightarrow> msg \<Rightarrow> string \<Rightarrow> bdecode_node \<Rightarrow> string \<Rightarrow> string \<Rightarrow> (string \<times> entry) list
    \<Rightarrow> (string \<times> entry) list \<Rightarrow> 'rt node \<Rightarrow> entry \<times> 'rt node" where
  "dispatch env m query arg_ent nid error_string e reply nd =
     (if query = ''ping''
      then finish e reply (inc_stats_counter dht_ping_in 1 nd)
      else if query = ''get_peers''
      then get_peers env m arg_ent error_string e reply nd
      else if query = ''find_node''
      then find_node_request env arg_ent error_string e reply nd
      else if query = ''announce_peer''
      then announce_peer env m arg_ent nid error_string e reply nd
      else if query = ''put''
      then put env m arg_ent nid error_string e reply nd
      else if query = ''get''
      then get_item env m arg_ent error_string e reply nd
      else unknown_query env arg_ent e reply nd)"

text \<open>
  \<open>incoming_request env m e nd\<close> returns the response \<open>e\<close> and the node. Without
  quota the caller's \<open>e\<close> is returned as it came. \<open>error_string\<close> is a local buffer
  that is written before it is read on every path these descriptors allow.
\<close>

definition incoming_request :: "'rt dht_env \<Rightarrow> msg \<Rightarrow> entry \<Rightarrow> 'rt node \<Rightarrow> entry \<times> 'rt node" where
  "incoming_request env m e_in nd =
     (if \<not> has_quota env then (e_in, nd)
      else
        let error_string = []
        in case verify_message (message m) top_desc error_string of
             Inl err \<Rightarrow> (EDict (incoming_error (response_start m) err default_error_code), nd)
           | Inr top_level \<Rightarrow>
               let query = string_value (top_level ! 0);
                   arg_ent = top_level ! 2;
                   read_only = (top_level ! 1 \<noteq> BNone \<and> int_value (top_level ! 1) \<noteq> 0);
                   nid = string_value (top_level ! 3)
               in if enforce_node_id (m_settings nd) \<and> \<not> verify_id env nid (ep_address (addr m))
                  then (EDict (incoming_error (response_ip env m) ''invalid node ID''
                                 default_error_code), nd)
                  else
                    let nd1 = heard_node env m read_only nid nd
                    in dispatch env m query arg_ent nid error_string
                         (entry_set ''r'' (EDict []) (response_ip env m)) (reply_start m nd1) nd1)"

subsection \<open>The hash function\<close>

text \<open>
  Modelled from the spec: the class \<open>hasher\<close> (hasher.hpp) is not among the sources; the
  spec says it computes SHA-1. This is SHA-1 as FIPS 180 defines it. A 32-bit word is a
  natural number below \<open>2 ^ 32\<close>, with the reduction written out; the message schedule
  is kept as a window of sixteen words, whose first word is the one the round uses and
  whose new last word is the one sixteen rounds ahead.
\<close>

definition add32 :: "nat \<Rightarrow> nat \<Rightarrow> nat" where
  "add32 x y = (x + y) mod 4294967296"

definition rotl :: "nat \<Rightarrow> nat \<Rightarrow> nat" where
  "rotl n w = (w * 2 ^ n) mod 4294967296 + w div 2 ^ (32 - n)"

definition not32 :: "nat \<Rightarrow> nat" where
  "not32 x = 4294967295 - x"

definition round_f :: "nat \<Rightarrow> nat \<Rightarrow> nat \<Rightarrow> nat \<Rightarrow> nat" where
  "round_f t b c d =
     (if t < 20 then (b AND c) OR (not32 b AND d)
      else if t < 40 then b XOR c XOR d
      else if t < 60 then (b AND c) OR (b AND d) OR (c AND d)
      else b XOR c XOR d)"

definition round_k :: "nat \<Rightarrow> nat" where
  "round_k t = (if t < 20 then 0x5A827999 else if t < 40 then 0x6ED9EBA1
                else if t < 60 then 0x8F1BBCDC else 0xCA62C1D6)"

type_synonym sha_state = "nat \<times> nat \<times> nat \<times> nat \<times> nat"

fun step :: "nat \<Rightarrow> nat list \<times> sha_state \<Rightarrow> nat list \<times> sha_state" where
  "step t (w, (a, b, c, d, e)) =
     (tl w @ [rotl 1 (w ! 13 XOR w ! 8 XOR w ! 2 XOR w ! 0)],
      (add32 (add32 (add32 (add32 (rotl 5 a) (round_f t b c d)) e) (round_k t)) (w ! 0),
       a, rotl 30 b, c, d))"

function rounds :: "nat \<Rightarrow> nat list \<times> sha_state \<Rightarrow> sha_state" where
  "rounds t s = (if 80 \<le> t then snd s else rounds (t + 1) (step t s))"
  by pat_completeness auto
termination
  by (relation "measure (\<lambda>(t, s). 80 - t)") auto

declare rounds.simps [simp del]

definition be32 :: "string \<Rightarrow> nat" where
  "be32 bs = foldl (\<lambda>w c. w * 256 + of_char c) 0 bs"

definition word_bytes :: "nat \<Rightarrow> string" where
  "word_bytes w = map (\<lambda>k. char_of ((w div 2 ^ k) mod 256)) [24, 16, 8, 0]"

definition sha1_pad :: "string \<Rightarrow> string" where
  "sha1_pad m =
     m @ [CHR 0x80] @ replicate ((119 - length m mod 64) mod 64) (CHR 0x00)
       @ word_bytes ((8 * length m) div 4294967296) @ word_bytes ((8 * length m) mod 4294967296)"

function chunks :: "nat \<Rightarrow> 'a list \<Rightarrow> 'a list list" where
  "chunks k xs = (if k = 0 \<or> xs = [] then [] else take k xs # chunks k (drop k xs))"
  by pat_completeness auto
termination
  by (relation "measure (\<lambda>(k, xs). length xs)") auto

declare chunks.simps [simp del]

definition compress :: "sha_state \<Rightarrow> string \<Rightarrow> sha_state" where
  "compress h block =
     (case h of (h0, h1, h2, h3, h4) \<Rightarrow>
        (case rounds 0 (map be32 (chunks 4 block), h) of
           (a, b, c, d, e) \<Rightarrow> (add32 h0 a, add32 h1 b, add32 h2 c, add32 h3 d, add32 h4 e)))"

definition sha1 :: "string \<Rightarrow> string" where
  "sha1 m =
     (case foldl compress (0x67452301, 0xEFCDAB89, 0x98BADCFE, 0x10325476, 0xC3D2E1F0)
             (chunks 64 (sha1_pad m)) of
        (h0, h1, h2, h3, h4) \<Rightarrow>
          word_bytes h0 @ word_bytes h1 @ word_bytes h2 @ word_bytes h3 @ word_bytes h4)"

subsection \<open>Reading a response\<close>

text \<open>
  What the theorems below say about a message or a response: the 20-byte string under a
  key of the arguments, the \<open>e\<close> entry of a response, an entry of its \<open>r\<close> dictionary,
  and a well-formed \<open>find_node\<close> query for a given target.
\<close>

definition find_string20 :: "bdecode_node \<Rightarrow> string \<Rightarrow> string option" where
  "find_string20 a k =
     (case dict_find a k of BString s \<Rightarrow> if length s = 20 then Some s else None | _ \<Rightarrow> None)"

definition error_of :: "entry \<Rightarrow> entry option" where
  "error_of e = (case e of EDict kvs \<Rightarrow> map_of kvs ''e'' | _ \<Rightarrow> None)"

definition find_node_query :: "string \<Rightarrow> bool \<Rightarrow> string \<Rightarrow> string \<Rightarrow> udp_endpoint \<Rightarrow> msg" where
  "find_node_query t ro nid target a =
     \<lparr>message = BDict [(''t'', BString t), (''q'', BString ''find_node''),
                       (''ro'', BInt (if ro then 1 else 0)),
                       (''a'', BDict [(''id'', BString nid), (''target'', BString target)])],
      addr = a\<rparr>"

definition reply_of :: "entry \<Rightarrow> string \<Rightarrow> entry option" where
  "reply_of e k =
     (case e of
        EDict kvs \<Rightarrow> (case map_of kvs ''r'' of Some (EDict r) \<Rightarrow> map_of r k | _ \<Rightarrow> None)
      | _ \<Rightarrow> None)"

subsection \<open>Concrete nodes and messages\<close>

text \<open>
  An environment whose collaborators are constant functions, a node with empty tables,
  and queries from one sender; the nodes below differ from \<open>stub_node\<close> in the field
  named.
\<close>

definition stub_env :: "unit dht_env" where
  "stub_env =
     \<lparr>hasher = (\<lambda>s. ''hhhhhhhhhhhhhhhhhhhh''),
      address_to_string = (\<lambda>a. Some ''10.0.0.1''),
      has_quota = True,
      verify_id = (\<lambda>i a. True),
      heard_about = (\<lambda>t i a. t),
      node_seen = (\<lambda>t i a r. t),
      find_node = (\<lambda>t h. []),
      endpoint_to_bytes = (\<lambda>a. ''ep''),
      write_endpoint = (\<lambda>a. ''ep''),
      lookup_peers = (\<lambda>mp h r n s. r),
      verify_mutable_item = (\<lambda>b s q k g. True),
      hash_address = (\<lambda>a. ''ip''),
      distance_exp = (\<lambda>a b. 0),
      bdecode = EString,
      data_section = string_value,
      time_now = 7\<rparr>"

definition stub_node :: "unit node" where
  "stub_node =
     \<lparr>m_settings = \<lparr>max_torrents = 2, max_dht_items = 10, max_peers_reply = 10,
                     enforce_node_id = False\<rparr>,
      m_id = ''NNNNNNNNNNNNNNNNNNNN'',
      m_table = (),
      m_secret = (1, 2),
      m_map = [],
      m_immutable_table = [],
      m_mutable_table = [],
      m_counters = (\<lambda>c. 0),
      m_observer = None\<rparr>"

definition sender :: udp_endpoint where
  "sender = \<lparr>ep_address = V4 0x0A000001, ep_port = 6881\<rparr>"

definition query_msg :: "string \<Rightarrow> (string \<times> bdecode_node) list \<Rightarrow> msg" where
  "query_msg q args =
     \<lparr>message = BDict [(''t'', BString ''aa''), (''y'', BString ''q''), (''q'', BString q),
                       (''a'', BDict ((''id'', BString ''AAAAAAAAAAAAAAAAAAAA'') # args))],
      addr = sender\<rparr>"

definition vote_msg :: msg where
  "vote_msg = query_msg ''vote'' [(''info_hash'', BString ''HHHHHHHHHHHHHHHHHHHH'')]"

definition strict_env :: "unit dht_env" where
  "strict_env = stub_env\<lparr>verify_id := (\<lambda>i a. False)\<rparr>"

definition strict_node :: "unit node" where
  "strict_node = stub_node\<lparr>m_settings := (m_settings stub_node)\<lparr>enforce_node_id := True\<rparr>\<rparr>"

text \<open>The environment whose hasher is SHA-1, and a node whose current secret is 2138.\<close>

definition sha_env :: "unit dht_env" where
  "sha_env = stub_env\<lparr>hasher := sha1\<rparr>"

definition key_node :: "unit node" where
  "key_node = stub_node\<lparr>m_secret := (2138, 0)\<rparr>"

definition hash_A :: string where
  "hash_A = ''AAAAAAAAAAAAAAAAAAAA''"

text \<open>A stored mutable item with sequence number 5, and the queries for its target.\<close>

definition hash_h :: string where
  "hash_h = ''hhhhhhhhhhhhhhhhhhhh''"

definition key_K :: string where
  "key_K = ''KKKKKKKKKKKKKKKKKKKKKKKKKKKKKKKK''"

definition sig_S :: string where
  "sig_S = ''SSSSSSSSSSSSSSSSSSSSSSSSSSSSSSSSSSSSSSSSSSSSSSSSSSSSSSSSSSSSSSSS''"

definition item5 :: dht_mutable_item where
  "item5 = \<lparr>item_value = ''old'', ips = [], last_seen = 0, num_announcers = 0,
             sig = sig_S, seq = 5, key = key_K, salt = []\<rparr>"

definition mutable_node :: "unit node" where
  "mutable_node = stub_node\<lparr>m_mutable_table := [(hash_h, item5)]\<rparr>"

definition both_node :: "unit node" where
  "both_node = mutable_node\<lparr>m_immutable_table :=
       [(hash_h, \<lparr>item_value = ''imm'', ips = [], last_seen = 0, num_announcers = 0\<rparr>)]\<rparr>"

definition get_msg :: "(string \<times> bdecode_node) list \<Rightarrow> msg" where
  "get_msg extra = query_msg ''get'' ((''target'', BString hash_h) # extra)"

definition put_msg :: "(string \<times> bdecode_node) list \<Rightarrow> msg" where
  "put_msg extra =
     query_msg ''put'' ([(''token'', BString ''hhhh''), (''v'', BString ''new''),
                         (''k'', BString key_K), (''sig'', BString sig_S)] @ extra)"

text \<open>A map of two torrents, with two peers and one, and an announce of a third.\<close>

definition hash_B :: string where
  "hash_B = ''BBBBBBBBBBBBBBBBBBBB''"

definition hash_C :: string where
  "hash_C = ''CCCCCCCCCCCCCCCCCCCC''"

definition hash_N :: string where
  "hash_N = ''HHHHHHHHHHHHHHHHHHHH''"

definition peer1 :: peer_entry where
  "peer1 = \<lparr>peer_addr = (V4 1, 1), added = 0, seed = False\<rparr>"

definition peer2 :: peer_entry where
  "peer2 = \<lparr>peer_addr = (V4 2, 2), added = 0, seed = False\<rparr>"

definition full_node :: "unit node" where
  "full_node = stub_node\<lparr>m_map := [(hash_B, \<lparr>name = [], peers = [peer1, peer2]\<rparr>),
                                      (hash_C, \<lparr>name = [], peers = [peer1]\<rparr>)]\<rparr>"

definition zero_node :: "unit node" where
  "zero_node = stub_node\<lparr>m_settings := (m_settings stub_node)\<lparr>max_torrents := 0\<rparr>\<rparr>"

definition announce_msg :: msg where
  "announce_msg = query_msg ''announce_peer''
     [(''info_hash'', BString hash_N), (''port'', BInt 6881), (''token'', BString ''hhhh'')]"

section \<open>The disk I/O thread (disk\_io\_thread.cpp, branch libtorrent\_aio\_policy\_refactor)\<close>

subsection \<open>Jobs, pieces and the state of the thread\<close>

text \<open>
  Jobs, storages and cached pieces are objects that the code reaches through pointers;
  a pointer is a number and the objects are kept in stores. The enumerator
  \<open>disk_io_job::hash\<close> is written \<open>hash_action\<close>, since \<open>hash\<close> is a field of a
  cached piece.
\<close>

type_synonym job_ptr = nat
type_synonym storage_ptr = nat
type_synonym piece_ptr = nat

datatype job_action =
  "read" | "write" | hash_action | move_storage | release_files | delete_files | check_fastresume
  | save_resume_data | rename_file | stop_torrent | cache_piece | finalize_file | flush_piece
  | flush_hashed | flush_storage | trim_cache | file_priority | load_torrent | clear_piece
  | tick_storage

datatype error_code = no_error | operation_aborted | system_error nat

text \<open>The fields of \<open>storage_error\<close> that this file writes.\<close>

record storage_error =
  ec :: error_code
  operation :: nat

text \<open>
  The fields of a job that the functions below read or write. \<open>in_progress\<close> is the
  bit \<open>disk_io_job::in_progress\<close> of \<open>flags\<close>; \<open>job_posted\<close> exists in a build with
  assertions only.
\<close>

record disk_io_job =
  action :: job_action
  storage :: "storage_ptr option"
  piece :: int
  callback :: "nat option"
  ret :: int
  error :: storage_error
  in_progress :: bool
  blocked :: bool
  job_posted :: bool

datatype fence_t = fence_post_fence | fence_post_flush | fence_post_none

record partial_hash =
  offset :: int

datatype cache_state_t =
  write_lru | volatile_read_lru | read_lru1 | read_lru1_ghost | read_lru2 | read_lru2_ghost

text \<open>
  The fields \<open>buf\<close>, \<open>dirty\<close>, \<open>pending\<close> and \<open>refcount\<close> of a cached block carry the
  prefix \<open>block\<close>: \<open>pending\<close> is the alert manager's function above.
\<close>

record cached_block_entry =
  block_buf :: "nat option"
  block_dirty :: bool
  block_pending :: bool
  block_refcount :: nat

record cached_piece_entry =
  storage :: storage_ptr
  piece :: int
  blocks :: "cached_block_entry list"
  blocks_in_piece :: int
  num_dirty :: int
  need_readback :: bool
  cache_state :: cache_state_t
  piece_refcount :: int
  hash :: "partial_hash option"
  hashing :: bool
  hashing_done :: bool
  piece_log :: "job_action list"
  jobs :: "job_ptr list"

text \<open>
  The block cache (block\_cache.cpp) is not among the sources: the cached pieces are a
  store, and whatever else the cache holds is \<open>cache_index\<close>.
\<close>

record 'x block_cache =
  pieces :: "piece_ptr \<rightharpoonup> cached_piece_entry"
  cache_index :: 'x

text \<open>
  \<open>m_job_pool\<close> is the store of the jobs and \<open>m_next_job\<close> the address the pool hands
  out next; \<open>m_storages\<close> is the state of the fences of all storages; \<open>m_posted\<close>
  counts the calls of \<open>m_ios.post\<close> for \<open>call_job_handlers\<close>.
\<close>

record ('fs, 'x) disk_io_thread =
  m_num_threads :: int
  m_job_pool :: "job_ptr \<rightharpoonup> disk_io_job"
  m_next_job :: job_ptr
  m_storages :: 'fs
  m_num_blocked_jobs :: int
  m_queued_jobs :: "job_ptr list"
  m_completed_jobs :: "job_ptr list"
  m_posted :: nat
  m_disk_cache :: "'x block_cache"

text \<open>
  What the thread calls and this file does not define. \<open>asserts\<close> says whether
  \<open>TORRENT_ASSERT\<close> is compiled in (\<open>TORRENT_DEBUG\<close> or \<open>TORRENT_RELEASE_ASSERTS\<close>);
  \<open>retry_job\<close> is the enumerator of disk\_io\_thread.hpp; \<open>new_job\<close> is the job that
  \<open>disk_job_pool::allocate_job\<close> constructs. \<open>raise_fence\<close> and \<open>job_complete\<close> are
  \<open>disk_job_fence\<close>'s: they see the jobs, the fences and, for \<open>raise_fence\<close>, the
  counter of blocked jobs; \<open>job_complete\<close> appends to the queue \<open>new_jobs\<close> it is
  given. \<open>find_piece\<close> and \<open>evict_piece\<close> are \<open>block_cache\<close>'s; \<open>evict_piece\<close>
  returns the jobs it puts into the queue it is given.
\<close>

record ('fs, 'x) disk_env =
  asserts :: bool
  retry_job :: int
  new_job :: "job_action \<Rightarrow> disk_io_job"
  raise_fence :: "storage_ptr \<Rightarrow> job_ptr \<Rightarrow> job_ptr \<Rightarrow> (job_ptr \<rightharpoonup> disk_io_job) \<times> 'fs \<times> int
                   \<Rightarrow> fence_t \<times> (job_ptr \<rightharpoonup> disk_io_job) \<times> 'fs \<times> int"
  job_complete :: "storage_ptr \<Rightarrow> job_ptr \<Rightarrow> job_ptr list \<Rightarrow> (job_ptr \<rightharpoonup> disk_io_job) \<times> 'fs
                    \<Rightarrow> int \<times> job_ptr list \<times> (job_ptr \<rightharpoonup> disk_io_job) \<times> 'fs"
  find_piece :: "'x block_cache \<Rightarrow> storage_ptr option \<Rightarrow> int \<Rightarrow> piece_ptr option"
  evict_piece :: "piece_ptr \<Rightarrow> 'x block_cache \<Rightarrow> bool \<times> job_ptr list \<times> 'x block_cache"

datatype failure = assertion_failed

text \<open>\<open>TORRENT_ASSERT(cond)\<close> stops the program when it is compiled in and \<open>cond\<close>
  is false.\<close>

definition failing :: "('fs, 'x) disk_env \<Rightarrow> bool \<Rightarrow> bool" where
  "failing env cond = (asserts env \<and> \<not> cond)"

definition job_at :: "('fs, 'x) disk_io_thread \<Rightarrow> job_ptr \<Rightarrow> disk_io_job" where
  "job_at s j = the (m_job_pool s j)"

definition update_job ::
  "job_ptr \<Rightarrow> (disk_io_job \<Rightarrow> disk_io_job) \<Rightarrow> ('fs, 'x) disk_io_thread \<Rightarrow> ('fs, 'x) disk_io_thread" where
  "update_job j f s = s\<lparr>m_job_pool := (m_job_pool s)(j \<mapsto> f (job_at s j))\<rparr>"

definition piece_at :: "('fs, 'x) disk_io_thread \<Rightarrow> piece_ptr \<Rightarrow> cached_piece_entry" where
  "piece_at s pe = the (pieces (m_disk_cache s) pe)"

definition update_piece ::
  "piece_ptr \<Rightarrow> (cached_piece_entry \<Rightarrow> cached_piece_entry) \<Rightarrow> ('fs, 'x) disk_io_thread
    \<Rightarrow> ('fs, 'x) disk_io_thread" where
  "update_piece pe f s =
     s\<lparr>m_disk_cache := (m_disk_cache s)\<lparr>pieces := (pieces (m_disk_cache s))(pe \<mapsto> f (piece_at s pe))\<rparr>\<rparr>"

definition allocate_job ::
  "('fs, 'x) disk_env \<Rightarrow> job_action \<Rightarrow> ('fs, 'x) disk_io_thread \<Rightarrow> job_ptr \<times> ('fs, 'x) disk_io_thread" where
  "allocate_job env type s =
     (m_next_job s,
      s\<lparr>m_job_pool := (m_job_pool s)(m_next_job s \<mapsto> new_job env type),
        m_next_job := Suc (m_next_job s)\<rparr>)"

definition free_job :: "job_ptr \<Rightarrow> ('fs, 'x) disk_io_thread \<Rightarrow> ('fs, 'x) disk_io_thread" where
  "free_job j s = s\<lparr>m_job_pool := (m_job_pool s)(j := None)\<rparr>"

subsection \<open>add\_fence\_job\<close>

text \<open>The call of \<open>raise_fence\<close> in \<open>add_fence_job\<close>, after the flush job \<open>fj\<close> has been
  allocated and given the storage of \<open>j\<close>: the result, \<open>fj\<close> and the state.\<close>

definition fence_call ::
  "('fs, 'x) disk_env \<Rightarrow> storage_ptr \<Rightarrow> job_ptr \<Rightarrow> ('fs, 'x) disk_io_thread
    \<Rightarrow> fence_t \<times> job_ptr \<times> ('fs, 'x) disk_io_thread" where
  "fence_call env st j s =
     (let (fj, s1) = allocate_job env flush_storage s;
          s2 = update_job fj (\<lambda>x. x\<lparr>disk_io_job.storage := disk_io_job.storage (job_at s1 j)\<rparr>) s1;
          (r, pool, fs, nb) = raise_fence env st j fj (m_job_pool s2, m_storages s2, m_num_blocked_jobs s2)
      in (r, fj, s2\<lparr>m_job_pool := pool, m_storages := fs, m_num_blocked_jobs := nb\<rparr>))"

definition add_fence_job ::
  "('fs, 'x) disk_env \<Rightarrow> storage_ptr \<Rightarrow> job_ptr \<Rightarrow> ('fs, 'x) disk_io_thread
    \<Rightarrow> failure + ('fs, 'x) disk_io_thread" where
  "add_fence_job env st j s =
     (if failing env (m_num_threads s > 0) then Inl assertion_failed
      else
        let (r, fj, s3) = fence_call env st j s
        in if r = fence_post_fence
           then if failing env (in_progress (job_at s3 j) \<or> disk_io_job.storage (job_at s3 j) = None)
                then Inl assertion_failed
                else Inr (free_job fj (s3\<lparr>m_queued_jobs := j # m_queued_jobs s3\<rparr>))
           else if failing env (blocked (job_at s3 j)) then Inl assertion_failed
           else if r = fence_post_flush
           then if failing env (in_progress (job_at s3 fj) \<or> disk_io_job.storage (job_at s3 fj) = None)
                then Inl assertion_failed
                else Inr (s3\<lparr>m_queued_jobs := fj # m_queued_jobs s3\<rparr>)
           else if failing env (\<not> in_progress (job_at s3 fj)) then Inl assertion_failed
           else if failing env (blocked (job_at s3 fj)) then Inl assertion_failed
           else Inr s3)"

subsection \<open>add\_completed\_jobs and abort\_jobs\<close>

text \<open>The loop of \<open>add_completed_jobs\<close> over the jobs: \<open>ret\<close>, \<open>new_jobs\<close> and the
  state.\<close>

fun job_complete_loop ::
  "('fs, 'x) disk_env \<Rightarrow> job_ptr list \<Rightarrow> int \<times> job_ptr list \<times> ('fs, 'x) disk_io_thread
    \<Rightarrow> failure + (int \<times> job_ptr list \<times> ('fs, 'x) disk_io_thread)" where
  "job_complete_loop env [] acc = Inr acc"
| "job_complete_loop env (j # js) (r, new_jobs, s) =
     (if failing env (in_progress (job_at s j) \<or> disk_io_job.storage (job_at s j) = None)
      then Inl assertion_failed
      else
        let (n, new_jobs1, s1) =
              (case disk_io_job.storage (job_at s j) of
                 None \<Rightarrow> (0, new_jobs, s)
               | Some st \<Rightarrow>
                   let (n, nj, pool, fs) = job_complete env st j new_jobs (m_job_pool s, m_storages s)
                   in (n, nj, s\<lparr>m_job_pool := pool, m_storages := fs\<rparr>));
            r1 = r + n
        in if failing env (r1 = int (length new_jobs1)) then Inl assertion_failed
           else if failing env (\<not> in_progress (job_at s1 j)) then Inl assertion_failed
           else if failing env (\<not> job_posted (job_at s1 j)) then Inl assertion_failed
           else job_complete_loop env js
                  (r1, new_jobs1,
                   if asserts env then update_job j (\<lambda>x. x\<lparr>job_posted := True\<rparr>) s1 else s1))"

definition add_completed_jobs ::
  "('fs, 'x) disk_env \<Rightarrow> job_ptr list \<Rightarrow> ('fs, 'x) disk_io_thread \<Rightarrow> failure + ('fs, 'x) disk_io_thread" where
  "add_completed_jobs env js s =
     (case job_complete_loop env js (0, [], s) of
        Inl f \<Rightarrow> Inl f
      | Inr (r, new_jobs, s1) \<Rightarrow>
          if failing env (m_num_blocked_jobs s1 \<ge> r) then Inl assertion_failed
          else
            let s2 = s1\<lparr>m_num_blocked_jobs := m_num_blocked_jobs s1 - r\<rparr>
            in if new_jobs \<noteq> []
                  \<and> failing env (list_all (\<lambda>j. in_progress (job_at s2 j)
                                               \<or> disk_io_job.storage (job_at s2 j) = None) new_jobs)
               then Inl assertion_failed
               else
                 let s3 = (if new_jobs \<noteq> [] then s2\<lparr>m_queued_jobs := m_queued_jobs s2 @ new_jobs\<rparr>
                           else s2);
                     need_post = (m_completed_jobs s3 = []);
                     s4 = s3\<lparr>m_completed_jobs := m_completed_jobs s3 @ js\<rparr>
                 in Inr (if need_post then s4\<lparr>m_posted := Suc (m_posted s4)\<rparr> else s4))"

fun abort_loop ::
  "('fs, 'x) disk_env \<Rightarrow> job_ptr list \<Rightarrow> ('fs, 'x) disk_io_thread \<Rightarrow> failure + ('fs, 'x) disk_io_thread" where
  "abort_loop env [] s = Inr s"
| "abort_loop env (j # js) s =
     (if failing env (in_progress (job_at s j) \<or> disk_io_job.storage (job_at s j) = None)
      then Inl assertion_failed
      else abort_loop env js
             (update_job j (\<lambda>x. x\<lparr>ret := - 1, error := (error x)\<lparr>ec := operation_aborted\<rparr>\<rparr>) s))"

definition abort_jobs ::
  "('fs, 'x) disk_env \<Rightarrow> job_ptr list \<Rightarrow> ('fs, 'x) disk_io_thread \<Rightarrow> failure + ('fs, 'x) disk_io_thread" where
  "abort_jobs env js s =
     (case abort_loop env js s of
        Inl f \<Rightarrow> Inl f
      | Inr s1 \<Rightarrow> if js \<noteq> [] then add_completed_jobs env js s1 else Inr s1)"

subsection \<open>Clearing a piece\<close>

definition async_clear_piece ::
  "('fs, 'x) disk_env \<Rightarrow> storage_ptr \<Rightarrow> int \<Rightarrow> nat option \<Rightarrow> ('fs, 'x) disk_io_thread
    \<Rightarrow> failure + ('fs, 'x) disk_io_thread" where
  "async_clear_piece env st index handler s =
     (let (j, s1) = allocate_job env clear_piece s;
          s2 = update_job j (\<lambda>x. x\<lparr>disk_io_job.storage := Some st, disk_io_job.piece := index,
                                    callback := handler\<rparr>) s1
      in add_fence_job env st j s2)"

text \<open>
  The lines of \<open>do_clear_piece\<close> that reset the hash of the piece \<open>pe\<close>; the entry in
  \<open>piece_log\<close> is made in a build with assertions only.
\<close>

definition clear_hash ::
  "('fs, 'x) disk_env \<Rightarrow> job_ptr \<Rightarrow> piece_ptr \<Rightarrow> ('fs, 'x) disk_io_thread \<Rightarrow> ('fs, 'x) disk_io_thread" where
  "clear_hash env j pe s =
     (let s1 = update_piece pe (\<lambda>p. p\<lparr>hashing_done := False, hash := None\<rparr>) s
      in if asserts env
         then update_piece pe (\<lambda>p. p\<lparr>piece_log := piece_log p @ [action (job_at s j)]\<rparr>) s1
         else s1)"

text \<open>\<open>do_clear_piece\<close> returns an \<open>int\<close> and the state.\<close>

definition do_clear_piece ::
  "('fs, 'x) disk_env \<Rightarrow> job_ptr \<Rightarrow> ('fs, 'x) disk_io_thread
    \<Rightarrow> failure + (int \<times> ('fs, 'x) disk_io_thread)" where
  "do_clear_piece env j s =
     (case find_piece env (m_disk_cache s) (disk_io_job.storage (job_at s j))
             (disk_io_job.piece (job_at s j)) of
        None \<Rightarrow> Inr (0, s)
      | Some pe \<Rightarrow>
          if failing env (hashing (piece_at s pe) = False) then Inl assertion_failed
          else
            let s2 = clear_hash env j pe s;
                (evicted, js, cache) = evict_piece env pe (m_disk_cache s2);
                s3 = s2\<lparr>m_disk_cache := cache\<rparr>
            in if evicted
               then (case abort_jobs env js s3 of Inl f \<Rightarrow> Inl f | Inr s4 \<Rightarrow> Inr (0, s4))
               else if failing env False then Inl assertion_failed
               else Inr (retry_job env, s3))"

text \<open>What \<open>abort_jobs\<close> writes into a job.\<close>

definition aborted :: "('fs, 'x) disk_io_thread \<Rightarrow> job_ptr \<Rightarrow> bool" where
  "aborted s j = (ret (job_at s j) = - 1 \<and> ec (error (job_at s j)) = operation_aborted)"

subsection \<open>A thread with three jobs and one cached piece\<close>

definition null_job :: disk_io_job where
  "null_job =
     \<lparr>action = read, storage = None, piece = 0, callback = None, ret = 0,
      error = \<lparr>ec = no_error, operation = 0\<rparr>, in_progress = False, blocked = False,
      job_posted = False\<rparr>"

definition hashed_piece :: cached_piece_entry where
  "hashed_piece =
     \<lparr>storage = 0, piece = 3, blocks = [], blocks_in_piece = 0, num_dirty = 0,
      need_readback = False, cache_state = read_lru1, piece_refcount = 0,
      hash = Some \<lparr>offset = 16384\<rparr>, hashing = False, hashing_done = True, piece_log = [],
      jobs = [1]\<rparr>"

text \<open>
  An environment whose \<open>raise_fence\<close> answers \<open>r\<close> and whose \<open>evict_piece\<close> evicts
  the piece, handing back its jobs, exactly when \<open>ev\<close>; job 0 clears piece 3 of
  storage 0, job 1 waits on that piece and job 2 is queued.
\<close>

definition fence_env :: "fence_t \<Rightarrow> bool \<Rightarrow> bool \<Rightarrow> (unit, unit) disk_env" where
  "fence_env r ev dbg =
     \<lparr>asserts = dbg, retry_job = - 201, new_job = (\<lambda>a. null_job\<lparr>action := a\<rparr>),
      raise_fence = (\<lambda>st j fj (pool, fs, nb). (r, pool, fs, nb)),
      job_complete = (\<lambda>st j new_jobs (pool, fs). (0, new_jobs, pool, fs)),
      find_piece = (\<lambda>c st i. if st = Some 0 \<and> i = 3 then Some 0 else None),
      evict_piece = (\<lambda>pe c. if ev then (True, jobs (the (pieces c pe)), c\<lparr>pieces := (pieces c)(pe := None)\<rparr>)
                             else (False, [], c))\<rparr>"

definition clearing_thread :: "(unit, unit) disk_io_thread" where
  "clearing_thread =
     \<lparr>m_num_threads = 1,
      m_job_pool = [0 \<mapsto> null_job\<lparr>action := clear_piece, disk_io_job.storage := Some 0,
                                    disk_io_job.piece := 3\<rparr>,
                    1 \<mapsto> null_job\<lparr>action := write, disk_io_job.storage := Some 0,
                                    disk_io_job.piece := 3\<rparr>,
                    2 \<mapsto> null_job],
      m_next_job = 3, m_storages = (), m_num_blocked_jobs = 0, m_queued_jobs = [2],
      m_completed_jobs = [], m_posted = 0,
      m_disk_cache = \<lparr>pieces = [0 \<mapsto> hashed_piece], cache_index = ()\<rparr>\<rparr>"

section \<open>Theorems\<close>

subsection \<open>Lemmas on the dispatch of a query\<close>

lemma node_type_string: "node_type n = string_t \<longleftrightarrow> (\<exists>s. n = BString s)"
  by (cases n) auto

lemma node_type_dict: "node_type n = dict_t \<longleftrightarrow> (\<exists>kvs. n = BDict kvs)"
  by (cases n) auto

lemma node_type_int: "node_type n = int_t \<longleftrightarrow> (\<exists>i. n = BInt i)"
  by (cases n) auto

lemma verify_top_desc:
  assumes "verify_message msg top_desc err = Inr top_level"
  shows "\<exists>q ro kvs nid. top_level = [BString q, ro, BDict kvs, BString nid] \<and> length nid = 20
     \<and> dict_find msg ''q'' = BString q
     \<and> ro = (if node_type (dict_find msg ''ro'') = int_t then dict_find msg ''ro'' else BNone)
     \<and> dict_find msg ''a'' = BDict kvs \<and> dict_find (BDict kvs) ''id'' = BString nid"
  using assms
  by (auto simp: verify_message_def top_desc_def key_desc_def Let_def string_length_def
      node_type_string node_type_dict node_type_int split: if_splits)

lemma incoming_request_dispatch:
  assumes "has_quota env"
    and "verify_message (message m) top_desc [] = Inr top_level"
    and "enforce_node_id (m_settings nd)
           \<longrightarrow> verify_id env (string_value (top_level ! 3)) (ep_address (addr m))"
  shows "incoming_request env m e nd =
     (let nd1 = heard_node env m (top_level ! 1 \<noteq> BNone \<and> int_value (top_level ! 1) \<noteq> 0)
                  (string_value (top_level ! 3)) nd
      in dispatch env m (string_value (top_level ! 0)) (top_level ! 2) (string_value (top_level ! 3)) []
           (entry_set ''r'' (EDict []) (response_ip env m)) (reply_start m nd1) nd1)"
  using assms by (auto simp: incoming_request_def Let_def)

lemma dispatch_unknown:
  assumes "query \<notin> {''ping'', ''find_node'', ''get_peers'', ''announce_peer'', ''put'', ''get''}"
  shows "dispatch env m query arg_ent nid err e reply nd = unknown_query env arg_ent e reply nd"
  using assms by (simp add: dispatch_def)

lemma find_string20_Some:
  "find_string20 a k = Some T \<longleftrightarrow> dict_find_string a k = BString T \<and> length T = 20"
  by (cases "dict_find a k") (auto simp: find_string20_def dict_find_string_def Let_def)

lemma find_string20_None:
  "find_string20 a k = None \<longleftrightarrow>
     dict_find_string a k = BNone \<or> string_length (dict_find_string a k) \<noteq> 20"
  by (cases "dict_find a k") (auto simp: find_string20_def dict_find_string_def Let_def string_length_def)

lemma unknown_query_cases:
  "unknown_query env a e reply nd =
     (case find_string20 a ''target'' of
        Some T \<Rightarrow> finish e (write_nodes_entry env reply (find_node env (m_table nd) T)) nd
      | None \<Rightarrow>
          (case find_string20 a ''info_hash'' of
             Some T \<Rightarrow> finish e (write_nodes_entry env reply (find_node env (m_table nd) T)) nd
           | None \<Rightarrow> fail e reply ''unknown message'' default_error_code nd))"
  by (auto simp: unknown_query_def Let_def find_string20_None find_string20_Some string_length_def
      split: option.splits)

lemma find_node_query_verify:
  assumes "length nid = 20"
  shows "verify_message (message (find_node_query t r nid T a)) top_desc []
      = Inr [BString ''find_node'', BInt (if r then 1 else 0),
             BDict [(''id'', BString nid), (''target'', BString T)], BString nid]"
  using assms by (simp add: find_node_query_def verify_message_def top_desc_def key_desc_def
        string_length_def Let_def)

lemma find_node_args_verify:
  assumes "length T = 20"
  shows "verify_message (BDict [(''id'', BString nid), (''target'', BString T)]) find_node_desc err
        = Inr [BString T]"
  using assms by (simp add: verify_message_def find_node_desc_def key_desc_def string_length_def Let_def)

lemma error_of_finish:
  "map_of e ''e'' = None \<Longrightarrow> error_of (fst (finish e reply nd)) = None"
  by (simp add: finish_def error_of_def map_of_entry_set)

lemma error_of_fail:
  "map_of e ''e'' = None \<Longrightarrow>
     error_of (fst (fail e reply emsg code nd)) = Some (EList [EInt code, EString emsg])"
  by (simp add: fail_def finish_def error_of_def map_of_entry_set incoming_error_def Let_def)

lemma response_no_error: "map_of (entry_set ''r'' (EDict []) (response_ip env m)) ''e'' = None"
  by (simp add: response_ip_def response_start_def map_of_entry_set)

lemma reply_of_finish: "reply_of (fst (finish e reply nd)) k = map_of reply k"
  by (simp add: reply_of_def finish_def map_of_entry_set)

lemma heard_node_tables [simp]:
  "m_immutable_table (heard_node env m ro nid nd) = m_immutable_table nd"
  "m_mutable_table (heard_node env m ro nid nd) = m_mutable_table nd"
  "m_map (heard_node env m ro nid nd) = m_map nd"
  "m_secret (heard_node env m ro nid nd) = m_secret nd"
  "m_settings (heard_node env m ro nid nd) = m_settings nd"
  "m_id (heard_node env m ro nid nd) = m_id nd"
  by (simp_all add: heard_node_def)

lemma inc_stats_counter_fields [simp]:
  "m_immutable_table (inc_stats_counter c v nd) = m_immutable_table nd"
  "m_mutable_table (inc_stats_counter c v nd) = m_mutable_table nd"
  "m_map (inc_stats_counter c v nd) = m_map nd"
  "m_secret (inc_stats_counter c v nd) = m_secret nd"
  "m_settings (inc_stats_counter c v nd) = m_settings nd"
  "m_table (inc_stats_counter c v nd) = m_table nd"
  "m_id (inc_stats_counter c v nd) = m_id nd"
  "m_observer (inc_stats_counter c v nd) = m_observer nd"
  by (simp_all add: inc_stats_counter_def)

lemma reply_start_keys:
  "map_of (reply_start m nd) k
     = (if k = ''p'' then Some (EInt (uint (ep_port (addr m))))
        else if k = ''id'' then Some (EString (m_id nd)) else None)"
  by (simp add: reply_start_def add_our_id_def map_of_entry_set)

lemma map_of_write_nodes_entry:
  "k \<noteq> ''nodes'' \<Longrightarrow> map_of (write_nodes_entry env r n) k = map_of r k"
  by (simp add: write_nodes_entry_def map_of_entry_set Let_def)

lemma fst_finish: "fst (finish e r nd) = EDict (entry_set ''r'' (EDict r) e)"
  by (simp add: finish_def)

lemma heard_node_immutable_update:
  "heard_node env m ro nid (nd\<lparr>m_immutable_table := tbl\<rparr>)
     = (heard_node env m ro nid nd)\<lparr>m_immutable_table := tbl\<rparr>"
  by (simp add: heard_node_def)

lemma generate_token_secret:
  "m_secret x = m_secret y \<Longrightarrow> generate_token env x a h = generate_token env y a h"
  by (simp add: generate_token_def)

lemma reply_start_id: "m_id x = m_id y \<Longrightarrow> reply_start m x = reply_start m y"
  by (simp add: reply_start_def add_our_id_def)

lemma tbl_find_assign:
  "tbl_find (tbl_assign k v t) k' =
     (if k' = k \<and> tbl_find t k \<noteq> None then Some v else tbl_find t k')"
  by (induction t) (auto simp: tbl_find_def)

lemma verify_token_secret:
  "m_secret x = m_secret y \<Longrightarrow> verify_token env x tok h a = verify_token env y tok h a"
  by (simp add: verify_token_def split: option.splits)

lemma touch_item_fields [simp]:
  "item_value (touch_item env a f) = item_value f"
  "sig (touch_item env a f) = sig f"
  "seq (touch_item env a f) = seq f"
  "key (touch_item env a f) = key f"
  "salt (touch_item env a f) = salt f"
  by (simp_all add: touch_item_def Let_def)

lemma snd_finish: "snd (finish e r nd) = nd"
  by (simp add: finish_def)

lemma snd_fail: "snd (fail e r emsg code nd) = nd"
  by (simp add: fail_def finish_def)

lemma eviction_loop_result:
  assumes "eviction_loop info_hash t (n, c) = (n', c')" and "info_hash \<notin> fst ` set t"
  shows "n' \<le> n \<and> (\<forall>(k, x) \<in> set t. n' \<le> int (length (peers x)))
       \<and> ((c' = c \<and> n' = n \<and> (\<forall>(k, x) \<in> set t. n < int (length (peers x))))
            \<or> (\<exists>x. (c', x) \<in> set t \<and> int (length (peers x)) = n'))"
  using assms
proof (induction t arbitrary: n c)
  case Nil
  then show ?case by simp
next
  case (Cons a t)
  obtain k x where a: "a = (k, x)" by (cases a)
  show ?case
  proof (cases "int (length (peers x)) > n")
    case True
    with Cons.prems a have "eviction_loop info_hash t (n, c) = (n', c')" by simp
    from Cons.IH [OF this] Cons.prems(2) True a show ?thesis by auto
  next
    case False
    with Cons.prems a have "eviction_loop info_hash t (int (length (peers x)), k) = (n', c')"
      by auto
    from Cons.IH [OF this] Cons.prems(2) False a show ?thesis by auto
  qed
qed

lemma tbl_erase_filter:
  "distinct (map fst t) \<Longrightarrow> tbl_erase k t = filter (\<lambda>kv. fst kv \<noteq> k) t"
proof (induction t)
  case Nil
  then show ?case by simp
next
  case (Cons a t)
  obtain k' v where a: "a = (k', v)" by (cases a)
  show ?case
  proof (cases "k' = k")
    case True
    with Cons.prems a have "\<forall>kv \<in> set t. fst kv \<noteq> k" by auto
    then have "filter (\<lambda>kv. fst kv \<noteq> k) t = t" by (simp add: filter_id_conv)
    with True a show ?thesis by simp
  next
    case False
    with Cons a show ?thesis by simp
  qed
qed

lemma tbl_erase_keys:
  "distinct (map fst t) \<Longrightarrow> fst ` set (tbl_erase k t) = fst ` set t - {k}"
  by (auto simp: tbl_erase_filter)

lemma tbl_erase_length:
  "k \<in> fst ` set t \<Longrightarrow> Suc (length (tbl_erase k t)) = length t"
proof (induction t)
  case Nil
  then show ?case by simp
next
  case (Cons a t)
  obtain k' v where a: "a = (k', v)" by (cases a)
  show ?case
  proof (cases "k' = k")
    case True
    with a show ?thesis by simp
  next
    case False
    with Cons.prems a have "k \<in> fst ` set t" by auto
    with Cons.IH False a show ?thesis by simp
  qed
qed

lemma tbl_erase_distinct:
  "distinct (map fst t) \<Longrightarrow> distinct (map fst (tbl_erase k t))"
  by (simp add: tbl_erase_filter distinct_map_filter)

lemma tbl_insert_new:
  assumes "k \<notin> fst ` set t"
  shows "fst ` set (tbl_insert k v t) = insert k (fst ` set t)"
    and "length (tbl_insert k v t) = Suc (length t)"
    and "distinct (map fst t) \<Longrightarrow> distinct (map fst (tbl_insert k v t))"
    and "tbl_find (tbl_insert k v t) k = Some v"
proof -
  show "fst ` set (tbl_insert k v t) = insert k (fst ` set t)"
    using assms by (simp add: tbl_insert_def set_insort_key)
  show "length (tbl_insert k v t) = Suc (length t)"
    using assms by (simp add: tbl_insert_def)
  show "distinct (map fst (tbl_insert k v t))" if "distinct (map fst t)"
  proof -
    have "distinct (map fst (insort_key fst (k, v) t))"
      using that assms by (induction t) (auto simp: set_insort_key)
    then show ?thesis using assms by (simp add: tbl_insert_def)
  qed
  have "map_of (insort_key fst (k, v) t) k = Some v"
    using assms by (induction t) auto
  then show "tbl_find (tbl_insert k v t) k = Some v"
    using assms by (simp add: tbl_insert_def tbl_find_def)
qed

lemma tbl_assign_keys [simp]: "map fst (tbl_assign k v t) = map fst t"
  by (induction t) auto

lemma tbl_find_None: "tbl_find t k = None \<longleftrightarrow> k \<notin> fst ` set t"
  by (simp add: tbl_find_def map_of_eq_None_iff)

lemma observer_announce_fields [simp]:
  "m_map (observer_announce h a p nd) = m_map nd"
  "m_secret (observer_announce h a p nd) = m_secret nd"
  "m_settings (observer_announce h a p nd) = m_settings nd"
  by (simp_all add: observer_announce_def split: option.splits)

subsection \<open>Evaluating the hash function\<close>

lemma length_sha1: "length (sha1 m) = 20"
  by (simp add: sha1_def word_bytes_def split: prod.splits)

lemma replicate_unfold: "replicate n x = (if n = 0 then [] else x # replicate (n - 1) x)"
  by (cases n) auto

lemmas sha_round_eval = rotl_def round_f_def round_k_def add32_def not32_def
lemmas sha_block_eval = sha1_pad_def word_bytes_def chunks.simps be32_def replicate_unfold
  char_of_def bit_Suc_0_iff

subsection \<open>Lemmas on the concrete nodes and messages\<close>

lemma query_msg_top:
  "verify_message (message (query_msg q args)) top_desc []
     = Inr [BString q, BNone, BDict ((''id'', BString ''AAAAAAAAAAAAAAAAAAAA'') # args),
            BString ''AAAAAAAAAAAAAAAAAAAA'']"
  by (simp add: query_msg_def verify_message_def top_desc_def key_desc_def string_length_def Let_def)

lemma stub_quota: "has_quota stub_env"
  by (simp add: stub_env_def)

lemma stub_heard_node: "heard_node stub_env m ro nid nd = nd"
  by (simp add: heard_node_def stub_env_def)

lemma stub_request:
  assumes "enforce_node_id (m_settings nd) = False"
  shows "incoming_request stub_env (query_msg q args) e nd
     = dispatch stub_env (query_msg q args) q (BDict ((''id'', BString ''AAAAAAAAAAAAAAAAAAAA'') # args))
         ''AAAAAAAAAAAAAAAAAAAA'' []
         (entry_set ''r'' (EDict []) (response_ip stub_env (query_msg q args)))
         (reply_start (query_msg q args) nd) nd"
  using incoming_request_dispatch [OF stub_quota query_msg_top, of nd q args e] assms
  by (simp add: Let_def stub_heard_node)

lemma get_msg_args:
  "verify_message (BDict ((''id'', BString ''AAAAAAAAAAAAAAAAAAAA'') # (''target'', BString hash_h) # extra))
       get_desc []
     = Inr [if node_type (dict_find (BDict extra) ''seq'') = int_t then dict_find (BDict extra) ''seq''
            else BNone, BString hash_h]"
  by (simp add: verify_message_def get_desc_def key_desc_def string_length_def Let_def hash_h_def)

lemma get_request:
  assumes "enforce_node_id (m_settings nd) = False"
  shows "incoming_request stub_env (get_msg extra) e nd
     = get_item stub_env (get_msg extra)
         (BDict ((''id'', BString ''AAAAAAAAAAAAAAAAAAAA'') # (''target'', BString hash_h) # extra)) []
         (entry_set ''r'' (EDict []) (response_ip stub_env (get_msg extra)))
         (reply_start (get_msg extra) nd) nd"
  using incoming_request_dispatch [OF stub_quota query_msg_top, of nd "''get''" _ e] assms
  by (simp add: get_msg_def dispatch_def Let_def stub_heard_node)

lemma put_msg_top:
  "verify_message (message (put_msg extra)) top_desc []
     = Inr [BString ''put'', BNone,
            BDict ((''id'', BString ''AAAAAAAAAAAAAAAAAAAA'') # [(''token'', BString ''hhhh''),
                   (''v'', BString ''new''), (''k'', BString key_K), (''sig'', BString sig_S)] @ extra),
            BString ''AAAAAAAAAAAAAAAAAAAA'']"
  by (simp add: put_msg_def query_msg_top)

lemmas verify_eval = verify_message_def key_desc_def string_length_def Let_def

lemma item_target_stub: "item_target_id_mutable stub_env s k = hash_h"
  by (simp add: item_target_id_mutable_def stub_env_def hash_h_def)

lemma stub_token: "verify_token stub_env stub_node ''hhhh'' h a"
  by (simp add: verify_token_def stub_env_def stub_node_def token_hash_def)

lemma stub_token_any: "m_secret nd = (1, 2) \<Longrightarrow> verify_token stub_env nd ''hhhh'' h a"
  by (simp add: verify_token_def stub_env_def token_hash_def)

lemma announce_msg_args:
  "verify_message
     (BDict [(''id'', BString ''AAAAAAAAAAAAAAAAAAAA''), (''info_hash'', BString hash_N),
             (''port'', BInt 6881), (''token'', BString ''hhhh'')]) announce_desc []
   = Inr [BString hash_N, BInt 6881, BString ''hhhh'', BNone, BNone, BNone]"
  by (simp add: verify_eval announce_desc_def hash_N_def)

text \<open>
  The first four bytes of two digests: of the address \<open>10.0.0.1\<close>, the secret 2138 or
  175336, and twenty bytes \<open>A\<close>.
\<close>

lemma blocks_a: "chunks 64 (sha1_pad [CHR 0x31, CHR 0x30, CHR 0x2E, CHR 0x30, CHR 0x2E, CHR 0x30, CHR 0x2E, CHR 0x31, CHR 0x5A, CHR 0x08, CHR 0x00, CHR 0x00, CHR 0x41, CHR 0x41, CHR 0x41, CHR 0x41, CHR 0x41, CHR 0x41, CHR 0x41, CHR 0x41, CHR 0x41, CHR 0x41, CHR 0x41, CHR 0x41, CHR 0x41, CHR 0x41, CHR 0x41, CHR 0x41, CHR 0x41, CHR 0x41, CHR 0x41, CHR 0x41]) = [[CHR 0x31, CHR 0x30, CHR 0x2E, CHR 0x30, CHR 0x2E, CHR 0x30, CHR 0x2E, CHR 0x31, CHR 0x5A, CHR 0x08, CHR 0x00, CHR 0x00, CHR 0x41, CHR 0x41, CHR 0x41, CHR 0x41, CHR 0x41, CHR 0x41, CHR 0x41, CHR 0x41, CHR 0x41, CHR 0x41, CHR 0x41, CHR 0x41, CHR 0x41, CHR 0x41, CHR 0x41, CHR 0x41, CHR 0x41, CHR 0x41, CHR 0x41, CHR 0x41, CHR 0x80, CHR 0x00, CHR 0x00, CHR 0x00, CHR 0x00, CHR 0x00, CHR 0x00, CHR 0x00, CHR 0x00, CHR 0x00, CHR 0x00, CHR 0x00, CHR 0x00, CHR 0x00, CHR 0x00, CHR 0x00, CHR 0x00, CHR 0x00, CHR 0x00, CHR 0x00, CHR 0x00, CHR 0x00, CHR 0x00, CHR 0x00, CHR 0x00, CHR 0x00, CHR 0x00, CHR 0x00, CHR 0x00, CHR 0x00, CHR 0x01, CHR 0x00]]"
  by (simp add: sha_block_eval)

lemma words_a: "map be32 (chunks 4 [CHR 0x31, CHR 0x30, CHR 0x2E, CHR 0x30, CHR 0x2E, CHR 0x30, CHR 0x2E, CHR 0x31, CHR 0x5A, CHR 0x08, CHR 0x00, CHR 0x00, CHR 0x41, CHR 0x41, CHR 0x41, CHR 0x41, CHR 0x41, CHR 0x41, CHR 0x41, CHR 0x41, CHR 0x41, CHR 0x41, CHR 0x41, CHR 0x41, CHR 0x41, CHR 0x41, CHR 0x41, CHR 0x41, CHR 0x41, CHR 0x41, CHR 0x41, CHR 0x41, CHR 0x80, CHR 0x00, CHR 0x00, CHR 0x00, CHR 0x00, CHR 0x00, CHR 0x00, CHR 0x00, CHR 0x00, CHR 0x00, CHR 0x00, CHR 0x00, CHR 0x00, CHR 0x00, CHR 0x00, CHR 0x00, CHR 0x00, CHR 0x00, CHR 0x00, CHR 0x00, CHR 0x00, CHR 0x00, CHR 0x00, CHR 0x00, CHR 0x00, CHR 0x00, CHR 0x00, CHR 0x00, CHR 0x00, CHR 0x00, CHR 0x01, CHR 0x00]) = [0x31302E30, 0x2E302E31, 0x5A080000, 0x41414141, 0x41414141, 0x41414141, 0x41414141, 0x41414141, 0x80000000, 0x00000000, 0x00000000, 0x00000000, 0x00000000, 0x00000000, 0x00000000, 0x00000100]"
  by (simp add: sha_block_eval)

lemma rounds_a: "rounds 0 ([0x31302E30, 0x2E302E31, 0x5A080000, 0x41414141, 0x41414141, 0x41414141, 0x41414141, 0x41414141, 0x80000000, 0x00000000, 0x00000000, 0x00000000, 0x00000000, 0x00000000, 0x00000000, 0x00000100], (0x67452301, 0xEFCDAB89, 0x98BADCFE, 0x10325476, 0xC3D2E1F0)) = (0xCF7A8399, 0xEAC163DF, 0x68B0B5F2, 0x8C1EB345, 0xAFE05F74)"
  by ((subst rounds.simps, simp add: sha_round_eval)+)

lemma digest_a: "take 4 (sha1 [CHR 0x31, CHR 0x30, CHR 0x2E, CHR 0x30, CHR 0x2E, CHR 0x30, CHR 0x2E, CHR 0x31, CHR 0x5A, CHR 0x08, CHR 0x00, CHR 0x00, CHR 0x41, CHR 0x41, CHR 0x41, CHR 0x41, CHR 0x41, CHR 0x41, CHR 0x41, CHR 0x41, CHR 0x41, CHR 0x41, CHR 0x41, CHR 0x41, CHR 0x41, CHR 0x41, CHR 0x41, CHR 0x41, CHR 0x41, CHR 0x41, CHR 0x41, CHR 0x41]) = [CHR 0x36, CHR 0xBF, CHR 0xA6, CHR 0x9A]"
  apply (simp add: sha1_def blocks_a compress_def words_a rounds_a add32_def)
  apply (simp add: word_bytes_def char_of_def bit_Suc_0_iff)
  done

lemma blocks_b: "chunks 64 (sha1_pad [CHR 0x31, CHR 0x30, CHR 0x2E, CHR 0x30, CHR 0x2E, CHR 0x30, CHR 0x2E, CHR 0x31, CHR 0xE8, CHR 0xAC, CHR 0x02, CHR 0x00, CHR 0x41, CHR 0x41, CHR 0x41, CHR 0x41, CHR 0x41, CHR 0x41, CHR 0x41, CHR 0x41, CHR 0x41, CHR 0x41, CHR 0x41, CHR 0x41, CHR 0x41, CHR 0x41, CHR 0x41, CHR 0x41, CHR 0x41, CHR 0x41, CHR 0x41, CHR 0x41]) = [[CHR 0x31, CHR 0x30, CHR 0x2E, CHR 0x30, CHR 0x2E, CHR 0x30, CHR 0x2E, CHR 0x31, CHR 0xE8, CHR 0xAC, CHR 0x02, CHR 0x00, CHR 0x41, CHR 0x41, CHR 0x41, CHR 0x41, CHR 0x41, CHR 0x41, CHR 0x41, CHR 0x41, CHR 0x41, CHR 0x41, CHR 0x41, CHR 0x41, CHR 0x41, CHR 0x41, CHR 0x41, CHR 0x41, CHR 0x41, CHR 0x41, CHR 0x41, CHR 0x41, CHR 0x80, CHR 0x00, CHR 0x00, CHR 0x00, CHR 0x00, CHR 0x00, CHR 0x00, CHR 0x00, CHR 0x00, CHR 0x00, CHR 0x00, CHR 0x00, CHR 0x00, CHR 0x00, CHR 0x00, CHR 0x00, CHR 0x00, CHR 0x00, CHR 0x00, CHR 0x00, CHR 0x00, CHR 0x00, CHR 0x00, CHR 0x00, CHR 0x00, CHR 0x00, CHR 0x00, CHR 0x00, CHR 0x00, CHR 0x00, CHR 0x01, CHR 0x00]]"
  by (simp add: sha_block_eval)

lemma words_b: "map be32 (chunks 4 [CHR 0x31, CHR 0x30, CHR 0x2E, CHR 0x30, CHR 0x2E, CHR 0x30, CHR 0x2E, CHR 0x31, CHR 0xE8, CHR 0xAC, CHR 0x02, CHR 0x00, CHR 0x41, CHR 0x41, CHR 0x41, CHR 0x41, CHR 0x41, CHR 0x41, CHR 0x41, CHR 0x41, CHR 0x41, CHR 0x41, CHR 0x41, CHR 0x41, CHR 0x41, CHR 0x41, CHR 0x41, CHR 0x41, CHR 0x41, CHR 0x41, CHR 0x41, CHR 0x41, CHR 0x80, CHR 0x00, CHR 0x00, CHR 0x00, CHR 0x00, CHR 0x00, CHR 0x00, CHR 0x00, CHR 0x00, CHR 0x00, CHR 0x00, CHR 0x00, CHR 0x00, CHR 0x00, CHR 0x00, CHR 0x00, CHR 0x00, CHR 0x00, CHR 0x00, CHR 0x00, CHR 0x00, CHR 0x00, CHR 0x00, CHR 0x00, CHR 0x00, CHR 0x00, CHR 0x00, CHR 0x00, CHR 0x00, CHR 0x00, CHR 0x01, CHR 0x00]) = [0x31302E30, 0x2E302E31, 0xE8AC0200, 0x41414141, 0x41414141, 0x41414141, 0x41414141, 0x41414141, 0x80000000, 0x00000000, 0x00000000, 0x00000000, 0x00000000, 0x00000000, 0x00000000, 0x00000100]"
  by (simp add: sha_block_eval)

lemma rounds_b: "rounds 0 ([0x31302E30, 0x2E302E31, 0xE8AC0200, 0x41414141, 0x41414141, 0x41414141, 0x41414141, 0x41414141, 0x80000000, 0x00000000, 0x00000000, 0x00000000, 0x00000000, 0x00000000, 0x00000000, 0x00000100], (0x67452301, 0xEFCDAB89, 0x98BADCFE, 0x10325476, 0xC3D2E1F0)) = (0xCF7A8399, 0x8AF2E226, 0xD533AFBD, 0xAB05025A, 0x34C65F15)"
  by ((subst rounds.simps, simp add: sha_round_eval)+)

lemma digest_b: "take 4 (sha1 [CHR 0x31, CHR 0x30, CHR 0x2E, CHR 0x30, CHR 0x2E, CHR 0x30, CHR 0x2E, CHR 0x31, CHR 0xE8, CHR 0xAC, CHR 0x02, CHR 0x00, CHR 0x41, CHR 0x41, CHR 0x41, CHR 0x41, CHR 0x41, CHR 0x41, CHR 0x41, CHR 0x41, CHR 0x41, CHR 0x41, CHR 0x41, CHR 0x41, CHR 0x41, CHR 0x41, CHR 0x41, CHR 0x41, CHR 0x41, CHR 0x41, CHR 0x41, CHR 0x41]) = [CHR 0x36, CHR 0xBF, CHR 0xA6, CHR 0x9A]"
  apply (simp add: sha1_def blocks_b compress_def words_b rounds_b add32_def)
  apply (simp add: word_bytes_def char_of_def bit_Suc_0_iff)
  done

lemma secret_bytes_a: "secret_bytes 2138 = [CHR 0x5A, CHR 0x08, CHR 0x00, CHR 0x00]"
  by (simp add: secret_bytes_def drop_bit_eq_div char_of_def bit_Suc_0_iff)

lemma secret_bytes_b: "secret_bytes 175336 = [CHR 0xE8, CHR 0xAC, CHR 0x02, CHR 0x00]"
  by (simp add: secret_bytes_def drop_bit_eq_div char_of_def bit_Suc_0_iff)

subsection \<open>The claims\<close>



text \<open>
  Claim C10, as amended. A query that has passed the checks every query passes (quota, the top level
  of the message, the node id) and whose name is none of the six known ones is answered
  with the ``unknown message'' error exactly when its arguments hold neither a 20-byte
  \<open>target\<close> nor a 20-byte \<open>info_hash\<close> string. Otherwise the response is the one a
  \<open>find_node\<close> query for that id (the \<open>target\<close> if it is there, else the
  \<open>info_hash\<close>) gets from the same sender, and the node ends in the same state but
  for the counter of \<open>find_node\<close> queries.
\<close>

theorem unknown_query_fallback:
  assumes quota: "has_quota env"
    and top: "verify_message (message m) top_desc [] = Inr top_level"
    and idok: "enforce_node_id (m_settings nd)
                 \<longrightarrow> verify_id env (string_value (top_level ! 3)) (ep_address (addr m))"
    and unknown: "string_value (top_level ! 0)
                    \<notin> {''ping'', ''find_node'', ''get_peers'', ''announce_peer'', ''put'', ''get''}"
  shows "(error_of (fst (incoming_request env m e nd))
            = Some (EList [EInt default_error_code, EString ''unknown message''])
          \<longleftrightarrow> find_string20 (top_level ! 2) ''target'' = None
              \<and> find_string20 (top_level ! 2) ''info_hash'' = None)
       \<and> (\<forall>T. find_string20 (top_level ! 2) ''target'' = Some T
                \<or> (find_string20 (top_level ! 2) ''target'' = None
                    \<and> find_string20 (top_level ! 2) ''info_hash'' = Some T)
             \<longrightarrow> (let fn = incoming_request env
                              (find_node_query (dict_find_string_value (message m) ''t'')
                                 (top_level ! 1 \<noteq> BNone \<and> int_value (top_level ! 1) \<noteq> 0)
                                 (string_value (top_level ! 3)) T (addr m)) e nd;
                       r = incoming_request env m e nd
                   in fst r = fst fn \<and> snd r = (snd fn)\<lparr>m_counters := m_counters (snd r)\<rparr>))"
proof -
  from verify_top_desc [OF top] obtain q ro kvs nid where
    tl: "top_level = [BString q, ro, BDict kvs, BString nid]" and len: "length nid = 20"
    by blast
  define rd where "rd = (top_level ! 1 \<noteq> BNone \<and> int_value (top_level ! 1) \<noteq> 0)"
  define nd1 where "nd1 = heard_node env m rd nid nd"
  define e2 where "e2 = entry_set ''r'' (EDict []) (response_ip env m)"
  have req: "incoming_request env m e nd
      = unknown_query env (top_level ! 2) e2 (reply_start m nd1) nd1"
    using incoming_request_dispatch [OF quota top idok, of e] dispatch_unknown [OF unknown]
    by (simp add: Let_def nd1_def e2_def rd_def tl)
  have noerr: "map_of e2 ''e'' = None"
    unfolding e2_def by (rule response_no_error)
  have fn: "incoming_request env
              (find_node_query (dict_find_string_value (message m) ''t'') rd nid T (addr m)) e nd
      = finish e2 (write_nodes_entry env (reply_start m nd1) (find_node env (m_table nd1) T))
          (inc_stats_counter dht_find_node_in 1 nd1)" if T: "length T = 20" for T
  proof -
    let ?m = "find_node_query (dict_find_string_value (message m) ''t'') rd nid T (addr m)"
    have same: "response_ip env ?m = response_ip env m" "reply_start ?m = reply_start m"
      "heard_node env ?m = heard_node env m"
      by (simp_all add: response_ip_def response_start_def reply_start_def heard_node_def
          find_node_query_def dict_find_string_value_def dict_find_string_def fun_eq_iff)
    have "enforce_node_id (m_settings nd) \<longrightarrow> verify_id env nid (ep_address (addr ?m))"
      using idok by (simp add: tl find_node_query_def)
    then show ?thesis
      using incoming_request_dispatch [OF quota find_node_query_verify [OF len, where r = rd and T = T
            and a = "addr m" and t = "dict_find_string_value (message m) ''t''"], of nd e]
      by (simp add: Let_def same dispatch_def find_node_request_def find_node_args_verify [OF T]
          nd1_def e2_def inc_stats_counter_def)
  qed
  have nid_eq: "string_value (top_level ! 3) = nid"
    by (simp add: tl)
  have rd_eq: "(top_level ! Suc 0 \<noteq> BNone \<and> int_value (top_level ! Suc 0) \<noteq> 0) = rd"
    by (simp add: rd_def)
  have len20: "length T = 20" if "find_string20 a k = Some T" for a k T
    using that by (simp add: find_string20_Some)
  have answer: "fst (finish e2 r nd1) = fst (finish e2 r (inc_stats_counter c v nd1))
      \<and> snd (finish e2 r nd1)
          = (snd (finish e2 r (inc_stats_counter c v nd1)))\<lparr>m_counters := m_counters (snd (finish e2 r nd1))\<rparr>"
    for r c v
    by (simp add: finish_def inc_stats_counter_def)
  have tbl: "m_table (inc_stats_counter c v x) = m_table x" for c v and x :: "'a node"
    by (simp add: inc_stats_counter_def)
  consider (tgt) T where "find_string20 (top_level ! 2) ''target'' = Some T"
    | (ih) T where "find_string20 (top_level ! 2) ''target'' = None"
        "find_string20 (top_level ! 2) ''info_hash'' = Some T"
    | (neither) "find_string20 (top_level ! 2) ''target'' = None"
        "find_string20 (top_level ! 2) ''info_hash'' = None"
    by (cases "find_string20 (top_level ! 2) ''target''";
        cases "find_string20 (top_level ! 2) ''info_hash''") auto
  then show ?thesis
  proof cases
    case tgt
    have uq: "incoming_request env m e nd
        = finish e2 (write_nodes_entry env (reply_start m nd1) (find_node env (m_table nd1) T)) nd1"
      by (simp add: req unknown_query_cases tgt)
    show ?thesis
      using answer fn [OF len20 [OF tgt]]
      by (simp add: uq tgt error_of_finish noerr Let_def rd_eq nid_eq)
  next
    case ih
    have uq: "incoming_request env m e nd
        = finish e2 (write_nodes_entry env (reply_start m nd1) (find_node env (m_table nd1) T)) nd1"
      by (simp add: req unknown_query_cases ih)
    show ?thesis
      using answer fn [OF len20 [OF ih(2)]]
      by (simp add: uq ih error_of_finish noerr Let_def rd_eq nid_eq)
  next
    case neither
    have uq: "incoming_request env m e nd
        = fail e2 (reply_start m nd1) ''unknown message'' default_error_code nd1"
      by (simp add: req unknown_query_cases neither)
    show ?thesis
      by (simp add: uq neither error_of_fail noerr)
  qed
qed

text \<open>
  The theorem on a query named \<open>vote\<close> that carries an \<open>info_hash\<close>: it is answered
  as the \<open>find_node\<close> query for that id is.
\<close>

theorem unknown_query_fallback_witness:
  "error_of (fst (incoming_request stub_env vote_msg (EDict []) stub_node))
     \<noteq> Some (EList [EInt default_error_code, EString ''unknown message''])
   \<and> fst (incoming_request stub_env vote_msg (EDict []) stub_node)
       = fst (incoming_request stub_env
                (find_node_query ''aa'' False ''AAAAAAAAAAAAAAAAAAAA'' ''HHHHHHHHHHHHHHHHHHHH'' sender)
                (EDict []) stub_node)"
proof -
  have quota: "has_quota stub_env"
    by (simp add: stub_env_def)
  have top: "verify_message (message vote_msg) top_desc []
      = Inr [BString ''vote'', BNone,
             BDict [(''id'', BString ''AAAAAAAAAAAAAAAAAAAA''),
                    (''info_hash'', BString ''HHHHHHHHHHHHHHHHHHHH'')],
             BString ''AAAAAAAAAAAAAAAAAAAA'']"
    by (simp add: vote_msg_def query_msg_top)
  have t: "dict_find_string_value (message vote_msg) ''t'' = ''aa''" "addr vote_msg = sender"
    by (simp_all add: vote_msg_def query_msg_def dict_find_string_value_def dict_find_string_def)
  have idok: "enforce_node_id (m_settings stub_node) \<longrightarrow> verify_id stub_env i a" for i a
    by (simp add: stub_node_def)
  show ?thesis
    using unknown_query_fallback [OF quota top idok, of "EDict []"]
    by (auto simp: find_string20_def t Let_def)
qed

text \<open>
  The claim as it was stated fails for a query that does not reach the branch: a node
  that enforces node ids answers a query named \<open>vote\<close> with neither \<open>target\<close> nor
  \<open>info_hash\<close>, from a sender whose id does not verify, with ``invalid node ID''.
\<close>

theorem unknown_query_fallback_counterexample:
  "find_string20 (BDict [(''id'', BString ''AAAAAAAAAAAAAAAAAAAA'')]) ''target'' = None
   \<and> find_string20 (BDict [(''id'', BString ''AAAAAAAAAAAAAAAAAAAA'')]) ''info_hash'' = None
   \<and> error_of (fst (incoming_request strict_env (query_msg ''vote'' []) (EDict []) strict_node))
       = Some (EList [EInt default_error_code, EString ''invalid node ID''])"
  by (simp add: incoming_request_def query_msg_top Let_def strict_env_def strict_node_def stub_env_def
      stub_node_def find_string20_def error_of_def incoming_error_def map_of_entry_set
      response_ip_def response_start_def dict_find_string_def dict_find_string_value_def)







text \<open>
  Claim C8, as amended. When a valid \<open>announce_peer\<close> arrives for an info-hash that is
  not in the map, and the map is not empty and holds at least \<open>max_torrents\<close> entries,
  exactly one entry is dropped and the new one added: the dropped entry has the fewest
  peers of all stored entries and is not the info-hash announced.
\<close>

theorem announce_evicts_fewest_peers:
  assumes quota: "has_quota env"
    and top: "verify_message (message m) top_desc [] = Inr top_level"
    and idok: "enforce_node_id (m_settings nd)
                 \<longrightarrow> verify_id env (string_value (top_level ! 3)) (ep_address (addr m))"
    and query: "string_value (top_level ! 0) = ''announce_peer''"
    and args: "verify_message (top_level ! 2) announce_desc [] = Inr msg_keys"
    and port: "port = (if msg_keys ! 5 \<noteq> BNone \<and> int_value (msg_keys ! 5) \<noteq> 0
                       then uint (ep_port (addr m)) else to_int32 (int_value (msg_keys ! 1)))"
      "0 \<le> port" "port < 65536"
    and info_hash: "info_hash = string_value (msg_keys ! 0)"
    and token: "verify_token env nd (string_value (msg_keys ! 2)) info_hash (addr m)"
    and new: "tbl_find (m_map nd) info_hash = None"
    and nonempty: "m_map nd \<noteq> []"
    and full: "max_torrents (m_settings nd) \<le> int (length (m_map nd))"
    and wf: "distinct (map fst (m_map nd))"
    and result: "nd' = snd (incoming_request env m e nd)"
  shows "\<exists>victim vt. (victim, vt) \<in> set (m_map nd) \<and> victim \<noteq> info_hash
           \<and> (\<forall>(k, t) \<in> set (m_map nd). length (peers vt) \<le> length (peers t))
           \<and> fst ` set (m_map nd') = insert info_hash (fst ` set (m_map nd) - {victim})
           \<and> length (m_map nd') = length (m_map nd)
           \<and> distinct (map fst (m_map nd'))"
proof -
  define rd where "rd = (top_level ! 1 \<noteq> BNone \<and> int_value (top_level ! 1) \<noteq> 0)"
  define nid where "nid = string_value (top_level ! 3)"
  define e2 where "e2 = entry_set ''r'' (EDict []) (response_ip env m)"
  define nd1 where "nd1 = heard_node env m rd nid nd"
  define nd2 where "nd2 = observer_announce info_hash (ep_address (addr m)) port nd1"
  define first where "first = hd (m_map nd)"
  define r where "r = eviction_loop info_hash (m_map nd) (int (length (peers (snd first))), fst first)"
  define dflt :: torrent_entry where "dflt = \<lparr>name = [], peers = []\<rparr>"
  have req: "incoming_request env m e nd
      = announce_peer env m (top_level ! 2) nid [] e2 (reply_start m nd1) nd1"
    using incoming_request_dispatch [OF quota top idok, of e]
    by (simp add: Let_def dispatch_def query rd_def e2_def nd1_def nid_def)
  have tok: "verify_token env nd2 (string_value (msg_keys ! 2)) info_hash (addr m)"
    using token verify_token_secret [of nd2 nd] by (simp add: nd2_def nd1_def)
  have notin: "info_hash \<notin> fst ` set (m_map nd)"
    using new by (simp add: tbl_find_None)
  have fields: "m_map nd2 = m_map nd" "m_settings nd2 = m_settings nd"
    by (simp_all add: nd2_def nd1_def)
  obtain n' c' where r: "r = (n', c')" by (cases r)
  have first_in: "first \<in> set (m_map nd)"
    using nonempty by (simp add: first_def)
  from eviction_loop_result [OF r [unfolded r_def] notin] first_in
  obtain vt where vt: "(c', vt) \<in> set (m_map nd)" "int (length (peers vt)) = n'"
    and least: "\<forall>(k, x) \<in> set (m_map nd). n' \<le> int (length (peers x))"
    by (cases first) force
  have c'_in: "c' \<in> fst ` set (m_map nd)"
    using vt(1) by force
  then have c'_ne: "c' \<noteq> info_hash"
    using notin by auto
  define erased where "erased = tbl_erase c' (m_map nd)"
  have erased_keys: "fst ` set erased = fst ` set (m_map nd) - {c'}"
    and erased_len: "Suc (length erased) = length (m_map nd)"
    and erased_distinct: "distinct (map fst erased)"
    unfolding erased_def
    using tbl_erase_keys [OF wf] tbl_erase_length [OF c'_in] tbl_erase_distinct [OF wf] by auto
  have notin': "info_hash \<notin> fst ` set erased"
    using notin erased_keys by auto
  have map': "\<exists>v. m_map nd' = tbl_assign info_hash v (tbl_insert info_hash dflt erased)"
    unfolding result req
    using port(2,3) tok nonempty full new r
    by (auto simp: announce_peer_def args Let_def port(1) [symmetric] info_hash [symmetric]
        nd2_def [symmetric] snd_fail snd_finish first_def [symmetric] r_def [symmetric]
        erased_def dflt_def fields split: prod.splits simp del: One_nat_def)
  then obtain v where map'': "m_map nd' = tbl_assign info_hash v (tbl_insert info_hash dflt erased)"
    by blast
  have keys': "map fst (m_map nd') = map fst (tbl_insert info_hash dflt erased)"
    by (simp add: map'')
  have "fst ` set (m_map nd') = insert info_hash (fst ` set (m_map nd) - {c'})"
    using arg_cong [OF keys', of set] tbl_insert_new(1) [OF notin', of dflt] erased_keys
    by (simp del: tbl_assign_keys)
  moreover have "length (m_map nd') = length (m_map nd)"
    using arg_cong [OF keys', of length] tbl_insert_new(2) [OF notin', of dflt] erased_len
    by (simp del: tbl_assign_keys)
  moreover have "distinct (map fst (m_map nd'))"
    using tbl_insert_new(3) [OF notin' erased_distinct] by (simp add: keys')
  moreover have "\<forall>(k, t) \<in> set (m_map nd). length (peers vt) \<le> length (peers t)"
    using least vt(2) by auto
  ultimately show ?thesis
    using vt(1) c'_ne by blast
qed

text \<open>
  The theorem on a map of two torrents and a limit of two.
\<close>

theorem announce_evicts_fewest_peers_witness:
  "\<exists>victim vt. (victim, vt) \<in> set (m_map full_node) \<and> victim \<noteq> hash_N
     \<and> (\<forall>(k, t) \<in> set (m_map full_node). length (peers vt) \<le> length (peers t))
     \<and> fst ` set (m_map (snd (incoming_request stub_env announce_msg (EDict []) full_node)))
         = insert hash_N (fst ` set (m_map full_node) - {victim})
     \<and> length (m_map (snd (incoming_request stub_env announce_msg (EDict []) full_node)))
         = length (m_map full_node)
     \<and> distinct (map fst (m_map (snd (incoming_request stub_env announce_msg (EDict []) full_node))))"
proof -
  have top: "verify_message (message announce_msg) top_desc []
      = Inr [BString ''announce_peer'', BNone,
             BDict ((''id'', BString ''AAAAAAAAAAAAAAAAAAAA'') #
               [(''info_hash'', BString hash_N), (''port'', BInt 6881), (''token'', BString ''hhhh'')]),
             BString ''AAAAAAAAAAAAAAAAAAAA'']"
    by (simp add: announce_msg_def query_msg_top)
  have idok: "enforce_node_id (m_settings full_node) \<longrightarrow> verify_id stub_env i a" for i a
    by (simp add: full_node_def stub_node_def)
  have token: "verify_token stub_env full_node ''hhhh'' h a" for h a
    by (rule stub_token_any) (simp add: full_node_def stub_node_def)
  have port: "to_int32 6881 = 6881"
    by (simp add: to_int32_def)
  have map: "m_map full_node = [(hash_B, \<lparr>name = [], peers = [peer1, peer2]\<rparr>),
                                (hash_C, \<lparr>name = [], peers = [peer1]\<rparr>)]"
    "max_torrents (m_settings full_node) = 2"
    by (simp_all add: full_node_def stub_node_def)
  have keys: "hash_B \<noteq> hash_N" "hash_C \<noteq> hash_N" "hash_B \<noteq> hash_C"
    by (simp_all add: hash_B_def hash_C_def hash_N_def)
  show ?thesis
    using announce_evicts_fewest_peers [OF stub_quota top idok, where e = "EDict []"
        and msg_keys = "[BString hash_N, BInt 6881, BString ''hhhh'', BNone, BNone, BNone]"
        and port = 6881 and info_hash = hash_N
        and nd' = "snd (incoming_request stub_env announce_msg (EDict []) full_node)"]
      announce_msg_args token port keys
    by (simp add: map tbl_find_def)
qed

text \<open>
  The claim as it was stated fails on an empty map with a limit of 0: the map holds at
  least \<open>max_torrents\<close> entries, and nothing is dropped.
\<close>

theorem announce_evicts_fewest_peers_counterexample:
  "m_map zero_node = []
   \<and> max_torrents (m_settings zero_node) \<le> int (length (m_map zero_node))
   \<and> error_of (fst (incoming_request stub_env announce_msg (EDict []) zero_node)) = None
   \<and> map fst (m_map (snd (incoming_request stub_env announce_msg (EDict []) zero_node))) = [hash_N]"
proof -
  have zero: "enforce_node_id (m_settings zero_node) = False"
    by (simp add: zero_node_def stub_node_def)
  have noerr: "map_of (entry_set ''r'' (EDict []) (response_ip stub_env m)) ''e'' = None" for m
    by (rule response_no_error)
  have env: "node_seen stub_env t i a r = t" "time_now stub_env = 7" for t i a r
    by (simp_all add: stub_env_def)
  have port: "to_int32 6881 = 6881"
    by (simp add: to_int32_def)
  show ?thesis
    unfolding announce_msg_def stub_request [OF zero]
    by (simp add: dispatch_def announce_peer_def announce_msg_args Let_def env port
        stub_token_any error_of_finish noerr snd_finish tbl_find_def zero_node_def stub_node_def
        observer_announce_def inc_stats_counter_def tbl_insert_def query_msg_def sender_def)
qed

text \<open>
  Claim C5, as amended. For an endpoint whose address can be printed, and a hasher whose
  digests have 20 bytes, the token \<open>generate_token\<close> returns is accepted by
  \<open>verify_token\<close>, and is still accepted after one call of \<open>new_write_key\<close>. After
  two calls it is accepted exactly when its four bytes are the first four bytes of the
  digest made with one of the two new secrets.
\<close>

theorem write_token_validity:
  assumes address: "address_to_string env (ep_address a) = Some s"
    and digest: "\<forall>x. length (hasher env x) = 20"
    and token: "token = generate_token env nd a h"
  shows "verify_token env nd token h a
       \<and> verify_token env (new_write_key nd r1) token h a
       \<and> (verify_token env (new_write_key (new_write_key nd r1) r2) token h a
            \<longleftrightarrow> token = take 4 (token_hash env s r2 h) \<or> token = take 4 (token_hash env s r1 h))"
  using assms
  by (auto simp: verify_token_def generate_token_def new_write_key_def token_hash_def)

text \<open>The theorem on the node whose secret is 2138, with SHA-1 as the hasher.\<close>

theorem write_token_validity_witness:
  "verify_token sha_env key_node (generate_token sha_env key_node sender hash_A) hash_A sender
   \<and> verify_token sha_env (new_write_key key_node 7)
         (generate_token sha_env key_node sender hash_A) hash_A sender"
proof -
  have address: "address_to_string sha_env (ep_address sender) = Some ''10.0.0.1''"
    by (simp add: sha_env_def stub_env_def)
  have digest: "\<forall>x. length (hasher sha_env x) = 20"
    by (simp add: sha_env_def length_sha1)
  show ?thesis
    using write_token_validity [OF address digest refl, of key_node hash_A 7 7]
    by simp
qed

text \<open>
  The claim as it was stated fails when the digests made with two secrets agree on their
  first four bytes, as those of 2138 and 175336 do here: the token made with 2138 is
  accepted after two calls of \<open>new_write_key\<close> that both draw 175336.
\<close>

theorem write_token_counterexample:
  "fst (m_secret key_node) = 2138 \<and> (175336 :: 32 word) \<noteq> 2138
   \<and> verify_token sha_env (new_write_key (new_write_key key_node 175336) 175336)
         (generate_token sha_env key_node sender hash_A) hash_A sender"
proof -
  have a: "take 4 (token_hash sha_env ''10.0.0.1'' 2138 hash_A) = [CHR 0x36, CHR 0xBF, CHR 0xA6, CHR 0x9A]"
    using digest_a by (simp add: token_hash_def sha_env_def secret_bytes_a hash_A_def)
  have b: "take 4 (token_hash sha_env ''10.0.0.1'' 175336 hash_A) = [CHR 0x36, CHR 0xBF, CHR 0xA6, CHR 0x9A]"
    using digest_b by (simp add: token_hash_def sha_env_def secret_bytes_b hash_A_def)
  have address: "address_to_string sha_env (ep_address sender) = Some ''10.0.0.1''"
    by (simp add: sha_env_def stub_env_def)
  show ?thesis
    by (simp add: verify_token_def generate_token_def new_write_key_def address key_node_def a b)
qed

section \<open>Theorems on the disk I/O thread\<close>

lemma fence_call_queue:
  "fence_call env st j s = (r, fj, s3)
   \<Longrightarrow> fj = m_next_job s \<and> m_queued_jobs s3 = m_queued_jobs s
       \<and> m_completed_jobs s3 = m_completed_jobs s \<and> m_disk_cache s3 = m_disk_cache s"
  by (auto simp: fence_call_def allocate_job_def update_job_def Let_def split: prod.splits)

lemma job_complete_loop_frame:
  "job_complete_loop env js (r, nj, s) = Inr (r', nj', s')
   \<Longrightarrow> m_queued_jobs s' = m_queued_jobs s \<and> m_completed_jobs s' = m_completed_jobs s
       \<and> m_posted s' = m_posted s \<and> m_disk_cache s' = m_disk_cache s"
proof (induction js arbitrary: r nj s)
  case Nil
  then show ?case by simp
next
  case (Cons j js)
  then show ?case
    by (auto simp: Let_def update_job_def split: if_splits option.splits prod.splits)
qed

lemma job_complete_loop_release:
  "\<not> asserts env \<Longrightarrow> \<exists>r' nj' s'. job_complete_loop env js (r, nj, s) = Inr (r', nj', s')"
proof (induction js arbitrary: r nj s)
  case Nil
  then show ?case by simp
next
  case (Cons j js)
  then show ?case
    by (simp add: Let_def failing_def split: option.splits prod.splits)
qed

lemma add_completed_jobs_release:
  assumes "\<not> asserts env"
  shows "\<exists>s'. add_completed_jobs env js s = Inr s'"
proof -
  from job_complete_loop_release [OF assms] obtain r nj s1
    where "job_complete_loop env js (0, [], s) = Inr (r, nj, s1)"
    by blast
  then show ?thesis
    using assms by (simp add: add_completed_jobs_def failing_def Let_def)
qed

lemma add_completed_jobs_queues:
  assumes "add_completed_jobs env js s = Inr s'"
  shows "\<exists>r nj s1. job_complete_loop env js (0, [], s) = Inr (r, nj, s1)
           \<and> m_queued_jobs s' = m_queued_jobs s @ nj
           \<and> m_completed_jobs s' = m_completed_jobs s @ js
           \<and> m_disk_cache s' = m_disk_cache s"
proof (cases "job_complete_loop env js (0, [], s)")
  case (Inl f)
  with assms show ?thesis
    by (simp add: add_completed_jobs_def)
next
  case (Inr acc)
  obtain r nj s1 where acc: "acc = (r, nj, s1)"
    by (cases acc) auto
  from job_complete_loop_frame [OF Inr [unfolded acc]] assms Inr acc show ?thesis
    by (auto simp: add_completed_jobs_def Let_def split: if_splits)
qed

lemma abort_loop_marks:
  assumes "abort_loop env js s = Inr s'" and "\<forall>x \<in> A. aborted s x"
  shows "(\<forall>x \<in> A \<union> set js. aborted s' x)
       \<and> m_queued_jobs s' = m_queued_jobs s \<and> m_completed_jobs s' = m_completed_jobs s
       \<and> m_disk_cache s' = m_disk_cache s \<and> m_posted s' = m_posted s"
  using assms
proof (induction js arbitrary: s A)
  case Nil
  then show ?case by simp
next
  case (Cons j js)
  let ?s1 = "update_job j (\<lambda>x. x\<lparr>ret := - 1, error := (error x)\<lparr>ec := operation_aborted\<rparr>\<rparr>) s"
  from Cons.prems(1) have step: "abort_loop env js ?s1 = Inr s'"
    by (simp split: if_splits)
  have "\<forall>x \<in> insert j A. aborted ?s1 x"
    using Cons.prems(2) by (auto simp: aborted_def update_job_def job_at_def)
  from Cons.IH [OF step this] show ?case
    by (auto simp: update_job_def)
qed

lemma abort_loop_release:
  "\<not> asserts env \<Longrightarrow> \<exists>s'. abort_loop env js s = Inr s'"
  by (induction js arbitrary: s) (simp_all add: failing_def)

subsection \<open>The claims on fences\<close>




lemma clearing_thread_find:
  "find_piece (fence_env r ev dbg) (m_disk_cache clearing_thread)
     (disk_io_job.storage (job_at clearing_thread 0)) (disk_io_job.piece (job_at clearing_thread 0))
   = Some 0"
  by (simp add: fence_env_def clearing_thread_def job_at_def null_job_def)

lemma clearing_thread_evict:
  "evict_piece (fence_env r ev False) 0 (m_disk_cache (clear_hash (fence_env r ev False) 0 0 clearing_thread))
   = (ev, if ev then [1] else [],
      if ev then \<lparr>pieces = Map.empty, cache_index = ()\<rparr>
      else \<lparr>pieces = [0 \<mapsto> hashed_piece\<lparr>hashing_done := False, hash := None\<rparr>], cache_index = ()\<rparr>)"
  by (simp add: fence_env_def clear_hash_def update_piece_def piece_at_def clearing_thread_def
      hashed_piece_def Let_def)



end
